theory Spec2Isabelle
  imports Main
begin

section \<open>The renderer of the SQL syntax tree\<close>

text \<open>
  A shallow embedding of \<^verbatim>\<open>src/render/index.ts\<close>: the class \<^verbatim>\<open>Renderer\<close>, which turns a
  statement of the syntax tree into SQL text. A method that raises returns \<open>Inl\<close> of the
  error. A method that can push onto \<^verbatim>\<open>this.params\<close> takes the renderer and returns it
  updated, so the order in which the source evaluates its sub-terms is the order in which
  the model threads the renderer through them. An error carries no renderer: what the
  buffer holds after a raise is outside the model.
\<close>

subsection \<open>Values of the host language\<close>

text \<open>\<^verbatim>\<open>Array.prototype.join\<close> on an array of strings.\<close>

fun arrayJoin :: "string \<Rightarrow> string list \<Rightarrow> string" where
  "arrayJoin sep [] = []"
| "arrayJoin sep [x] = x"
| "arrayJoin sep (x # y # ys) = x @ sep @ arrayJoin sep (y # ys)"

text \<open>
  The decimal numeral of an integer: its digits without leading zeros, with a minus sign
  in front below zero.
\<close>

definition digitChar :: "nat \<Rightarrow> char" where
  "digitChar d = ''0123456789'' ! d"

function digits :: "nat \<Rightarrow> string" where
  "digits n = (if n < 10 then [digitChar n] else digits (n div 10) @ [digitChar (n mod 10)])"
  by pat_completeness auto
termination
  by (relation "measure id") auto

declare digits.simps [simp del]

definition decimalText :: "int \<Rightarrow> string" where
  "decimalText v = (if v < 0 then CHR ''-'' # digits (nat (- v)) else digits (nat v))"

text \<open>
  A number of the host is a double. The renderer stores a number in the buffer or writes
  it through \<^verbatim>\<open>'' + v\<close>, and does nothing else with it; the model holds a number by
  what that conversion depends on:

    \<^item> \<open>Integer\<close>: an integer of magnitude below \<open>2 ^ 53\<close>. These are the safe integers
      of the host (\<^verbatim>\<open>Number.isSafeInteger\<close>): a double holds each of them exactly, and
      the host writes each as its decimal numeral. The type \<open>safeInteger\<close> has these
      integers and no others; \<open>SafeInteger n\<close> is the integer \<open>n\<close> for \<open>n\<close> in this
      range. (Zero stands for both zeros of the host, which are both written \<^verbatim>\<open>0\<close>.)

    \<^item> \<open>NaN\<close>, \<open>PositiveInfinity\<close>, \<open>NegativeInfinity\<close>: written \<^verbatim>\<open>NaN\<close>,
      \<^verbatim>\<open>Infinity\<close> and \<^verbatim>\<open>-Infinity\<close>.

    \<^item> \<open>OtherFinite\<close>: any other finite number, that is a fraction or a number of
      magnitude \<open>2 ^ 53\<close> or more. The host writes it in the shortest digits that read
      back to the same double, with an exponent from \<open>10 ^ 21\<close> on (\<^verbatim>\<open>1e+21\<close>) and
      below \<open>10 ^ -6\<close>. That conversion is not computed here: such a number is held by
      the text the host writes for it, as a date is held by its ISO text.
\<close>

typedef safeInteger = "{n :: int. \<bar>n\<bar> < 2 ^ 53}"
  morphisms integerValue SafeInteger
  by (rule exI [of _ 0]) simp

datatype jsnumber =
    Integer safeInteger
  | OtherFinite string
  | NaN
  | PositiveInfinity
  | NegativeInfinity

fun numberToString :: "jsnumber \<Rightarrow> string" where
  "numberToString (Integer n) = decimalText (integerValue n)"
| "numberToString (OtherFinite text) = text"
| "numberToString NaN = ''NaN''"
| "numberToString PositiveInfinity = ''Infinity''"
| "numberToString NegativeInfinity = ''-Infinity''"

text \<open>
  A \<^verbatim>\<open>Date\<close> object is held by what the renderer reads of it: the text that
  \<^verbatim>\<open>toISOString()\<close> returns, or nothing for an invalid date, on which
  \<^verbatim>\<open>toISOString()\<close> raises a \<^verbatim>\<open>RangeError\<close>.
\<close>

datatype jsdate = ValidDate string | InvalidDate

text \<open>
  The errors a render call can raise: the three \<^verbatim>\<open>Error\<close>s of the extension hooks,
  the one of \<open>renderInsert\<close>, the one of the custom literal, and the two the host raises
  (\<^verbatim>\<open>RangeError\<close> from \<^verbatim>\<open>toISOString\<close> on an invalid date, \<^verbatim>\<open>TypeError\<close> from a
  property read on \<^verbatim>\<open>undefined\<close>).
\<close>

datatype error =
    InvalidInsert
  | CustomExpression
  | Unimplemented
  | CustomTable
  | CustomLiteral
  | RangeError
  | TypeError

subsection \<open>The syntax tree\<close>

text \<open>
  The declarations of the node types (\<^verbatim>\<open>ast/*.ts\<close>) are not among the sources. Each
  type below has the variants the renderer switches on and the fields it reads, under the
  names the renderer uses. The type parameter \<open>'x\<close> is the payload of the extension
  nodes (\<^verbatim>\<open>Ext\<close>). A \<^verbatim>\<open>DataType\<close> is never inspected by this renderer: it is held
  as an opaque tag.
\<close>

datatype ident = Ident (name: string)

datatype dataType = DataType string

datatype numLitVal = NumberVal jsnumber | StringVal string

datatype 'x literal =
    NumLit numLitVal
  | StringLit string
  | BoolLit bool
  | NullLit
  | DateLit jsdate
  | CustomLit 'x

record tableAlias =
  alias_name :: ident
  alias_columns :: "ident list"

datatype 'e whenClause = WhenClause 'e 'e

datatype 'q commonTableExpr = CommonTableExpr tableAlias 'q

datatype 's setOp = SetOp string bool 's

datatype 'e orderingExpr = OrderingExpr 'e "string option" "string option"

datatype ('t, 'e) join = Join string 't 'e

datatype ('t, 'e) joinedTable = JoinedTable 't "('t, 'e) join list"

text \<open>
  Constructor arguments, in order. \<open>Between\<close>: expr, negated, low, high.
  \<open>BinaryApp\<close>: left, op, right. \<open>Case\<close>: expr, cases, elseCase. \<open>Cast\<close>: expr,
  dataType. \<open>Collate\<close>: expr, collation. \<open>Extract\<close>: field, source. \<open>FunctionApp\<close>:
  name, args. \<open>IsNull\<close>: negated, expr. \<open>InList\<close>: negated, expr, list.
  \<open>InSubQuery\<close>: negated, expr, subQuery. \<open>UnaryApp\<close>: op, expr.
  \<open>WhenClause\<close>: condition, result. \<open>Query\<close>: commonTableExprs, selection, unions,
  ordering, limit, offset. \<open>CommonTableExpr\<close>: alias, query. \<open>SetOp\<close>: func, all,
  select. \<open>OrderingExpr\<close>: expr, order, nullHandling. \<open>Select\<close>: selections, from,
  where, groupBy, having. \<open>AliasedSelection\<close>: selection, alias. \<open>JoinedTable\<close>:
  table, joins. \<open>Join\<close>: kind, table, on. \<open>DerivedTable\<close>: subQuery, alias.
  \<open>FunctionTable\<close>: func, alias. A field that may be \<^verbatim>\<open>null\<close> is an \<open>option\<close>.
\<close>

datatype 'x expr =
    IdentExpr ident
  | Wildcard
  | QualifiedWildcard "'x expr list"
  | CompoundIdentifier "'x expr list"
  | Between "'x expr" bool "'x expr" "'x expr"
  | BinaryApp "'x expr" string "'x expr"
  | Case "'x expr option" "'x expr whenClause list" "'x expr option"
  | Cast "'x expr" dataType
  | Collate "'x expr" "'x expr"
  | Exists "'x query"
  | Extract string "'x expr"
  | FunctionApp "'x expr" "'x expr list"
  | IsNull bool "'x expr"
  | InList bool "'x expr" "'x expr list"
  | InSubQuery bool "'x expr" "'x query"
  | Lit "'x literal"
  | Parenthesized "'x expr"
  | SubQuery "'x query"
  | UnaryApp string "'x expr"
  | ExprExtension 'x
and 'x query =
    Query "'x query commonTableExpr list" "'x select" "'x select setOp list"
      "'x expr orderingExpr list" "'x expr option" "'x expr option"
and 'x select =
    Select "'x selection list" "('x table, 'x expr) joinedTable option"
      "'x expr option" "'x expr list" "'x expr option"
and 'x selection =
    AnonymousSelection "'x expr"
  | AliasedSelection "'x expr" ident
and 'x table =
    BasicTable ident
  | DerivedTable "'x query" ident
  | FunctionTable "'x expr" ident
  | TableExtension 'x

text \<open>
  A cell of an inserted row and the right-hand side of an assignment are an expression or
  the \<^verbatim>\<open>DefaultValue\<close> marker.
\<close>

datatype 'x valueOrDefault = DefaultValue | ExprValue "'x expr"

datatype 'x insertValues =
    DefaultValues
  | ValuesConstructor "'x valueOrDefault list list"
  | ValuesQuery "'x query"

text \<open>
  The \<open>values\<close> of an insert are required, and \<open>renderInsert\<close> checks for them: the
  field may hold \<^verbatim>\<open>null\<close>, or be absent (\<^verbatim>\<open>undefined\<close>) in a tree that was not built
  through the typed constructors.
\<close>

datatype 'a required = Undefined | Null | Value 'a

record 'x insert =
  insert_table :: ident
  insert_columns :: "ident list"
  insert_values :: "'x insertValues required"

record 'x update =
  update_table :: ident
  update_assignments :: "(ident \<times> 'x valueOrDefault) list"
  update_where :: "'x expr option"

record 'x updatePositioned =
  updatePositioned_table :: ident
  updatePositioned_assignments :: "(ident \<times> 'x valueOrDefault) list"
  updatePositioned_cursor :: ident

record 'x delete =
  delete_table :: ident
  delete_where :: "'x expr option"

record deletePositioned =
  deletePositioned_table :: ident
  deletePositioned_cursor :: ident

record constraintCheckTime =
  deferrable :: bool
  initiallyDeferred :: bool

text \<open>\<open>DefaultLit\<close> is the variant tagged \<^verbatim>\<open>Lit\<close>.\<close>

datatype 'x defaultOption =
    DefaultLit "'x literal"
  | CurrentDateDefault
  | CurrentTime "'x literal option"
  | CurrentTimeStamp "'x literal option"
  | UserDefault
  | CurrentUserDefault
  | SessionUserDefault
  | SystemUserDefault
  | NullDefault

record uniqueConstraint =
  unique_primaryKey :: bool
  unique_columns :: "ident list"

datatype matchType = Regular | Full | Partial

datatype referentialAction = Cascade | SetNull | SetDefault | NoAction

record referenceConstraint =
  reference_table :: ident
  reference_columns :: "ident list option"
  reference_matchType :: matchType
  reference_onUpdate :: "referentialAction option"
  reference_onDelete :: "referentialAction option"

record 'x checkConstraint =
  check_search :: "'x query"

datatype 'x columnConstraint =
    ColumnNotNull
  | ColumnUnique uniqueConstraint
  | ColumnReference referenceConstraint
  | ColumnCheck "'x checkConstraint"

record 'x columnConstraintDefinition =
  columnConstraint_name :: "ident option"
  columnConstraint_constraint :: "'x columnConstraint"
  columnConstraint_attributes :: "constraintCheckTime option"

datatype 'x tableConstraintBody =
    TableUnique uniqueConstraint
  | TableReference referenceConstraint
  | TableCheck "'x checkConstraint"

record 'x tableConstraint =
  tableConstraint_name :: "ident option"
  tableConstraint_constraint :: "'x tableConstraintBody"
  tableConstraint_checkTime :: "constraintCheckTime option"

text \<open>The type of a column is a domain's identifier or a data type.\<close>

datatype columnType = DomainIdent ident | ColumnDataType dataType

record 'x columnDefinition =
  column_name :: ident
  column_type :: columnType
  column_default :: "'x defaultOption option"
  column_constraints :: "'x columnConstraintDefinition list"
  column_collation :: "ident option"

datatype tableMode = Persistent | GlobalTemp | LocalTemp

datatype onCommit = OnCommitDelete | OnCommitPreserve

record 'x tableDefinition =
  table_name :: ident
  table_mode :: tableMode
  table_columns :: "'x columnDefinition list"
  table_constraints :: "'x tableConstraint list"
  table_onCommit :: "onCommit option"

datatype checkOption = Cascaded | Local

record 'x viewDefinition =
  view_name :: ident
  view_columns :: "ident list option"
  view_query :: "'x query"
  view_checkOption :: "checkOption option"

record 'x domainDefinition =
  domain_name :: ident
  domain_dataType :: dataType
  domain_default :: "'x defaultOption option"
  domain_constraintName :: "ident option"
  domain_constraintExpr :: "'x query option"
  domain_constraintAttributes :: "constraintCheckTime option"
  domain_collation :: "ident option"

record 'x assertionDefinition =
  assertion_name :: ident
  assertion_search :: "'x query"
  assertion_checkTime :: "constraintCheckTime option"

datatype privilege =
    SelectPrivilege
  | DeletePrivilege
  | InsertPrivilege "ident list option"
  | UpdatePrivilege "ident list option"
  | ReferencePrivilege "ident list option"
  | UsagePrivilege

datatype objectType = Table | Domain | Collation | CharacterSet | Translation

record grantStatement =
  grant_privileges :: "privilege list option"
  grant_objectName :: ident
  grant_objectType :: objectType
  grant_grantees :: "ident list option"
  grant_grantOption :: bool

datatype 'x schemaDefinitionStatement =
    SchemaDomainDefinition "'x domainDefinition"
  | SchemaTableDefinition "'x tableDefinition"
  | SchemaViewDefinition "'x viewDefinition"
  | SchemaGrantStatement grantStatement
  | SchemaAssertionDefinition "'x assertionDefinition"

record 'x createSchema =
  schema_catalog :: "ident option"
  schema_name :: "ident option"
  schema_authorization :: "ident option"
  schema_characterSet :: "ident option"
  schema_definitions :: "'x schemaDefinitionStatement list"

text \<open>
  The schema manipulation statements, as \<^verbatim>\<open>src/builder/schema.ts\<close> constructs them
  (\<^verbatim>\<open>dropTable\<close>, \<^verbatim>\<open>dropView\<close>, \<^verbatim>\<open>revoke\<close>, \<^verbatim>\<open>dropDomain\<close>, \<^verbatim>\<open>dropAssertion\<close>).
\<close>

datatype dropBehavior = DropCascade | DropRestrict

record dropTable =
  dropTable_name :: ident
  dropTable_behavior :: dropBehavior

record dropView =
  dropView_name :: ident
  dropView_behavior :: dropBehavior

record dropDomain =
  dropDomain_name :: ident
  dropDomain_behavior :: dropBehavior

record dropAssertion =
  dropAssertion_name :: ident

record revokePrivilege =
  revoke_privileges :: "privilege list option"
  revoke_objectName :: ident
  revoke_objectType :: objectType
  revoke_grantees :: "ident list option"
  revoke_grantOption :: bool
  revoke_behavior :: dropBehavior

text \<open>
  Modelled from the spec: the declaration of \<^verbatim>\<open>Statement\<close> (\<^verbatim>\<open>ast/statement.ts\<close>) is
  not among the sources. Its variants are the ones the spec lists for the statement
  family (Query, Insert, Update, Delete, UpdatePositioned, DeletePositioned,
  TableDefinition, ViewDefinition, DomainDefinition, AssertionDefinition, GrantStatement,
  RevokeStatement, DropTable, DropView, DropDomain, DropAssertion), and
  \<^verbatim>\<open>CreateSchema\<close>, which \<open>renderStatement\<close> switches on.
\<close>

datatype 'x statement =
    StmtQuery "'x query"
  | StmtInsert "'x insert"
  | StmtUpdate "'x update"
  | StmtDelete "'x delete"
  | StmtUpdatePositioned "'x updatePositioned"
  | StmtDeletePositioned deletePositioned
  | StmtCreateSchema "'x createSchema"
  | StmtTableDefinition "'x tableDefinition"
  | StmtViewDefinition "'x viewDefinition"
  | StmtGrantStatement grantStatement
  | StmtDomainDefinition "'x domainDefinition"
  | StmtAssertionDefinition "'x assertionDefinition"
  | StmtRevokeStatement revokePrivilege
  | StmtDropTable dropTable
  | StmtDropView dropView
  | StmtDropDomain dropDomain
  | StmtDropAssertion dropAssertion

subsection \<open>The renderer and its effects\<close>

text \<open>
  The values \<^verbatim>\<open>this.params\<close> can hold: what \<^verbatim>\<open>literal.val\<close> can be (\<^verbatim>\<open>undefined\<close> where
  the literal has no such field), and \<^verbatim>\<open>null\<close>.
\<close>

datatype 'x jsvalue =
    JsNumber jsnumber
  | JsString string
  | JsBoolean bool
  | JsNull
  | JsUndefined
  | JsDate jsdate
  | JsCustom 'x

datatype placeHolderStyle = Dollar | QuestionMark

record 'x renderer =
  params :: "'x jsvalue list"
  paramsMode :: bool
  placeHolderStyle :: placeHolderStyle

text \<open>
  The constructor: \<^verbatim>\<open>paramsMode\<close> defaults to \<^verbatim>\<open>false\<close>, \<^verbatim>\<open>placeHolderStyle\<close> to
  \<^verbatim>\<open>'$'\<close>, and the buffer starts empty.
\<close>

definition newRenderer :: "bool option \<Rightarrow> placeHolderStyle option \<Rightarrow> 'x renderer" where
  "newRenderer mode style =
     \<lparr>params = [],
      paramsMode = (case mode of None \<Rightarrow> False | Some m \<Rightarrow> m),
      placeHolderStyle = (case style of None \<Rightarrow> Dollar | Some s \<Rightarrow> s)\<rparr>"

text \<open>
  What a method returns: the error it raised, or its value and the renderer after it.
  \<open>andThen\<close> runs the rest of a method on the value of a call, unless the call raised;
  \<open>mapArray\<close> is \<^verbatim>\<open>Array.prototype.map\<close> with a callback that has these effects,
  called on the elements from left to right.
\<close>

type_synonym ('a, 'x) rendering = "error + ('a \<times> 'x renderer)"

definition andThen ::
  "'e + ('a \<times> 's) \<Rightarrow> ('a \<Rightarrow> 's \<Rightarrow> 'e + ('b \<times> 's)) \<Rightarrow> 'e + ('b \<times> 's)" where
  "andThen m f = (case m of Inl e \<Rightarrow> Inl e | Inr (a, s) \<Rightarrow> f a s)"

lemma andThen_Inl [simp]: "andThen (Inl e) f = Inl e"
  by (simp add: andThen_def)

lemma andThen_Inr [simp]: "andThen (Inr (a, s)) f = f a s"
  by (simp add: andThen_def)

lemma andThen_cong [fundef_cong]:
  "m = m' \<Longrightarrow> (\<And>a s. m' = Inr (a, s) \<Longrightarrow> f a s = f' a s) \<Longrightarrow> andThen m f = andThen m' f'"
  by (auto simp: andThen_def split: sum.splits)

fun mapArray ::
  "('s \<Rightarrow> 'a \<Rightarrow> 'e + ('b \<times> 's)) \<Rightarrow> 's \<Rightarrow> 'a list \<Rightarrow> 'e + ('b list \<times> 's)" where
  "mapArray f s [] = Inr ([], s)"
| "mapArray f s (x # xs) =
     andThen (f s x) (\<lambda>y s1. andThen (mapArray f s1 xs) (\<lambda>ys s2. Inr (y # ys, s2)))"

lemma mapArray_cong [fundef_cong]:
  "xs = ys \<Longrightarrow> s = t \<Longrightarrow> (\<And>x u. x \<in> set ys \<Longrightarrow> f u x = g u x) \<Longrightarrow>
   mapArray f s xs = mapArray g t ys"
proof (induction ys arbitrary: xs s t)
  case Nil
  then show ?case by simp
next
  case (Cons y ys)
  have step: "\<And>u. mapArray f u ys = mapArray g u ys"
    by (rule Cons.IH) (simp_all add: Cons.prems)
  from Cons.prems show ?case
    by (simp add: step andThen_def split: sum.splits)
qed

subsection \<open>Identifiers, placeholders and literals\<close>

definition renderIdent :: "ident \<Rightarrow> string" where
  \<open>renderIdent i = ''"'' @ name i @ ''"''\<close>

text \<open>
  \<open>renderPlaceholder\<close> is called with a length of the buffer: a positive integer, which
  the host keeps below \<open>2 ^ 32\<close> and which \<^verbatim>\<open>'$' + n\<close> writes as its decimal numeral.
\<close>

definition renderPlaceholder :: "'x renderer \<Rightarrow> int \<Rightarrow> string" where
  "renderPlaceholder r n =
     (if placeHolderStyle r = QuestionMark then ''?'' else ''$'' @ decimalText n)"

definition toISOString :: "jsdate \<Rightarrow> error + string" where
  "toISOString d = (case d of ValidDate text \<Rightarrow> Inr text | InvalidDate \<Rightarrow> Inl RangeError)"

text \<open>\<^verbatim>\<open>literal.val\<close>. The null literal has no such field.\<close>

definition literalVal :: "'x literal \<Rightarrow> 'x jsvalue" where
  "literalVal literal =
     (case literal of
        NumLit (NumberVal n) \<Rightarrow> JsNumber n
      | NumLit (StringVal s) \<Rightarrow> JsString s
      | StringLit s \<Rightarrow> JsString s
      | BoolLit b \<Rightarrow> JsBoolean b
      | NullLit \<Rightarrow> JsUndefined
      | DateLit d \<Rightarrow> JsDate d
      | CustomLit c \<Rightarrow> JsCustom c)"

text \<open>
  \<^verbatim>\<open>this.params.push(val)\<close> appends and returns the new length. The character
  \<open>CHR 0x27\<close> is the single quote.
\<close>

definition renderLiteral :: "'x renderer \<Rightarrow> 'x literal \<Rightarrow> (string, 'x) rendering" where
  "renderLiteral r literal =
     (if paramsMode r then
        (let val = (case literal of NullLit \<Rightarrow> JsNull | _ \<Rightarrow> literalVal literal);
             r1 = r\<lparr>params := params r @ [val]\<rparr>;
             l = int (length (params r1))
         in Inr (renderPlaceholder r1 l, r1))
      else
        (case literal of
           NumLit v \<Rightarrow>
             Inr ((case v of StringVal s \<Rightarrow> s | NumberVal n \<Rightarrow> numberToString n), r)
         | StringLit s \<Rightarrow> Inr ([CHR 0x27] @ s @ [CHR 0x27], r)
         | BoolLit b \<Rightarrow> Inr ((if b then ''TRUE'' else ''FALSE''), r)
         | NullLit \<Rightarrow> Inr (''NULL'', r)
         | DateLit d \<Rightarrow>
             (case toISOString d of
                Inl e \<Rightarrow> Inl e
              | Inr text \<Rightarrow> Inr (''DATE '' @ [CHR 0x27] @ text @ [CHR 0x27], r))
         | CustomLit c \<Rightarrow> Inl CustomLiteral))"

text \<open>The hooks of the base class: each raises.\<close>

definition renderCustomExpr :: "'x renderer \<Rightarrow> 'x \<Rightarrow> (string, 'x) rendering" where
  "renderCustomExpr r dt = Inl CustomExpression"

definition renderDataType :: "'x renderer \<Rightarrow> dataType \<Rightarrow> (string, 'x) rendering" where
  "renderDataType r dt = Inl Unimplemented"

definition renderCustomTable :: "'x renderer \<Rightarrow> 'x \<Rightarrow> (string, 'x) rendering" where
  "renderCustomTable r dt = Inl CustomTable"

subsection \<open>Expressions, queries, selects and tables\<close>

text \<open>
  Each equation evaluates the sub-terms in the order of the source: a \<^verbatim>\<open>const\<close> bound
  before the returned template is rendered before the calls inside the template. So
  \<open>FunctionApp\<close> renders its arguments before its name, \<open>InList\<close> and \<open>InSubQuery\<close>
  the list or sub-query before the operand, \<open>renderQuery\<close> the limit, the offset and the
  ordering before the selection and the unions, and \<open>renderSelect\<close> the table after
  everything else.
\<close>

fun renderExpr :: "'x renderer \<Rightarrow> 'x expr \<Rightarrow> (string, 'x) rendering"
  and renderQuery :: "'x renderer \<Rightarrow> 'x query \<Rightarrow> (string, 'x) rendering"
  and renderSelect :: "'x renderer \<Rightarrow> 'x select \<Rightarrow> (string, 'x) rendering"
  and renderTable :: "'x renderer \<Rightarrow> 'x table \<Rightarrow> (string, 'x) rendering"
where
  "renderExpr r (IdentExpr i) = Inr (renderIdent i, r)"
| "renderExpr r Wildcard = Inr (''*'', r)"
| "renderExpr r (QualifiedWildcard qs) =
     andThen (mapArray renderExpr r qs) (\<lambda>parts r1.
       let qualifiers = arrayJoin ''.'' parts
       in Inr ((if qualifiers = [] then ''*'' else qualifiers @ ''.*''), r1))"
| "renderExpr r (CompoundIdentifier idChain) =
     andThen (mapArray renderExpr r idChain) (\<lambda>parts r1. Inr (arrayJoin ''.'' parts, r1))"
| "renderExpr r (Between e negated lo hi) =
     andThen (renderExpr r e) (\<lambda>operand r1.
       let notText = (if negated then '' NOT'' else [])
       in andThen (renderExpr r1 lo) (\<lambda>low r2.
            andThen (renderExpr r2 hi) (\<lambda>high r3.
              Inr (operand @ notText @ '' BETWEEN '' @ low @ '' AND '' @ high, r3))))"
| "renderExpr r (BinaryApp l op ri) =
     andThen (renderExpr r l) (\<lambda>left r1.
       andThen (renderExpr r1 ri) (\<lambda>right r2.
         Inr (left @ '' '' @ op @ '' '' @ right, r2)))"
| "renderExpr r (Case e cases elseCase) =
     andThen (case e of None \<Rightarrow> Inr ([], r)
              | Some e' \<Rightarrow> andThen (renderExpr r e') (\<lambda>s r'. Inr ('' '' @ s, r'))) (\<lambda>operand r1.
       andThen (mapArray (\<lambda>r w. case w of WhenClause condition result \<Rightarrow>
                  andThen (renderExpr r condition) (\<lambda>c r'.
                    andThen (renderExpr r' result) (\<lambda>t r''.
                      Inr (''WHEN '' @ c @ '' THEN '' @ t, r'')))) r1 cases) (\<lambda>cases' r2.
         andThen (case elseCase of None \<Rightarrow> Inr ([], r2)
                  | Some e' \<Rightarrow>
                      andThen (renderExpr r2 e') (\<lambda>s r'. Inr (''ELSE '' @ s @ '' '', r'))) (\<lambda>else' r3.
           Inr (''CASE'' @ operand @ '' '' @ arrayJoin '' '' cases' @ '' '' @ else' @ ''END'', r3))))"
| "renderExpr r (Cast e dt) =
     andThen (renderExpr r e) (\<lambda>s r1.
       andThen (renderDataType r1 dt) (\<lambda>t r2. Inr (''CAST('' @ s @ '' AS '' @ t @ '')'', r2)))"
| "renderExpr r (Collate e collation) =
     andThen (renderExpr r e) (\<lambda>s r1.
       andThen (renderExpr r1 collation) (\<lambda>c r2. Inr (s @ '' COLLATE '' @ c, r2)))"
| "renderExpr r (Exists subQuery) =
     andThen (renderQuery r subQuery) (\<lambda>q r1. Inr (''EXISTS('' @ q @ '')'', r1))"
| "renderExpr r (Extract field source) =
     andThen (renderExpr r source) (\<lambda>s r1.
       Inr (''EXTRACT('' @ field @ '' FROM '' @ s @ '')'', r1))"
| "renderExpr r (FunctionApp nm args) =
     andThen (mapArray renderExpr r args) (\<lambda>as r1.
       let args' = arrayJoin '', '' as
       in andThen (renderExpr r1 nm) (\<lambda>n r2. Inr (n @ ''('' @ args' @ '')'', r2)))"
| "renderExpr r (IsNull negated e) =
     (let notText = (if negated then '' NOT'' else [])
      in andThen (renderExpr r e) (\<lambda>s r1. Inr (s @ '' IS'' @ notText @ '' NULL'', r1)))"
| "renderExpr r (InList negated e list) =
     (let notText = (if negated then '' NOT'' else [])
      in andThen (mapArray renderExpr r list) (\<lambda>ls r1.
           let list' = arrayJoin '', '' ls
           in andThen (renderExpr r1 e) (\<lambda>s r2.
                Inr (s @ notText @ '' IN ('' @ list' @ '')'', r2))))"
| "renderExpr r (InSubQuery negated e subQuery) =
     (let notText = (if negated then '' NOT'' else [])
      in andThen (renderQuery r subQuery) (\<lambda>sub r1.
           andThen (renderExpr r1 e) (\<lambda>s r2. Inr (s @ notText @ '' IN ('' @ sub @ '')'', r2))))"
| "renderExpr r (Lit literal) = renderLiteral r literal"
| "renderExpr r (Parenthesized e) =
     andThen (renderExpr r e) (\<lambda>s r1. Inr (''('' @ s @ '')'', r1))"
| "renderExpr r (SubQuery q) =
     andThen (renderQuery r q) (\<lambda>s r1. Inr (''('' @ s @ '')'', r1))"
| "renderExpr r (UnaryApp op e) =
     andThen (renderExpr r e) (\<lambda>s r1. Inr (op @ s, r1))"
| "renderExpr r (ExprExtension v) = renderCustomExpr r v"
| "renderQuery r (Query commonTableExprs sel unions ords lim off) =
     andThen (if length commonTableExprs = 0 then Inr ([], r)
              else andThen (mapArray (\<lambda>r cte. case cte of CommonTableExpr alias q \<Rightarrow>
                       let cols = (if length (alias_columns alias) = 0 then []
                                   else '' ('' @ arrayJoin '', ''
                                          (map renderIdent (alias_columns alias)) @ '')'')
                       in andThen (renderQuery r q) (\<lambda>s r'.
                            Inr (renderIdent (alias_name alias) @ cols @ '' AS ('' @ s @ '')'', r')))
                     r commonTableExprs) (\<lambda>subs r'.
                   Inr (''WITH '' @ arrayJoin '', '' subs @ '' '', r'))) (\<lambda>ctes r1.
       andThen (case lim of None \<Rightarrow> Inr ([], r1)
                | Some e \<Rightarrow>
                    andThen (renderExpr r1 e) (\<lambda>s r'. Inr ('' LIMIT '' @ s, r'))) (\<lambda>limitText r2.
         andThen (case off of None \<Rightarrow> Inr ([], r2)
                  | Some e \<Rightarrow>
                      andThen (renderExpr r2 e) (\<lambda>s r'. Inr ('' OFFSET '' @ s, r'))) (\<lambda>offsetText r3.
           andThen (if length ords = 0 then Inr ([], r3)
                    else andThen (mapArray (\<lambda>r oe. case oe of OrderingExpr e ord nullHandling \<Rightarrow>
                             let asc = (case ord of None \<Rightarrow> [] | Some a \<Rightarrow> '' '' @ a);
                                 nulls = (case nullHandling of None \<Rightarrow> [] | Some n \<Rightarrow> '' '' @ n)
                             in andThen (renderExpr r e) (\<lambda>s r'. Inr (s @ asc @ nulls, r')))
                           r3 ords) (\<lambda>orders r'.
                         Inr ('' ORDER BY '' @ arrayJoin '', '' orders, r'))) (\<lambda>orderingText r4.
             andThen (renderSelect r4 sel) (\<lambda>selectionText r5.
               andThen (if length unions = 0 then Inr ([], r5)
                        else andThen (mapArray (\<lambda>r u. case u of SetOp func allFlag s \<Rightarrow>
                                 let allText = (if allFlag then '' ALL'' else [])
                                 in andThen (renderSelect r s) (\<lambda>t r'.
                                      Inr ('' '' @ func @ allText @ '' '' @ t, r')))
                               r5 unions) (\<lambda>us r'.
                             Inr ('' '' @ arrayJoin '' '' us, r'))) (\<lambda>unionsText r6.
                 Inr (ctes @ selectionText @ unionsText @ orderingText @ limitText @ offsetText, r6)))))))"
| "renderSelect r (Select selections frm whr groupBy hav) =
     andThen (mapArray (\<lambda>r s. case s of
                  AnonymousSelection e \<Rightarrow> renderExpr r e
                | AliasedSelection e alias \<Rightarrow>
                    andThen (renderExpr r e) (\<lambda>t r'. Inr (t @ '' AS '' @ renderIdent alias, r')))
              r selections) (\<lambda>ss r1.
       let selectionsText = arrayJoin '', '' ss
       in andThen (case whr of None \<Rightarrow> Inr ([], r1)
                   | Some e \<Rightarrow>
                       andThen (renderExpr r1 e) (\<lambda>s r'. Inr ('' WHERE '' @ s, r'))) (\<lambda>whereText r2.
            andThen (if length groupBy = 0 then Inr ([], r2)
                     else andThen (mapArray renderExpr r2 groupBy) (\<lambda>gs r'.
                            Inr ('' GROUP BY'' @ arrayJoin '', '' gs, r'))) (\<lambda>groupByText r3.
              andThen (case hav of None \<Rightarrow> Inr ([], r3)
                       | Some e \<Rightarrow>
                           andThen (renderExpr r3 e) (\<lambda>s r'. Inr ('' HAVING'' @ s, r'))) (\<lambda>havingText r4.
                andThen (case frm of None \<Rightarrow> Inr ([], r4)
                         | Some (JoinedTable tbl joins) \<Rightarrow>
                             andThen (renderTable r4 tbl) (\<lambda>initTable r'.
                               andThen (mapArray (\<lambda>r j. case j of Join kind t onExpr \<Rightarrow>
                                          andThen (renderTable r t) (\<lambda>ts r''.
                                            andThen (renderExpr r'' onExpr) (\<lambda>os r'''.
                                              Inr ('' '' @ kind @ '' JOIN '' @ ts @ '' ON '' @ os, r'''))))
                                        r' joins) (\<lambda>js r''.
                                 Inr ('' FROM '' @ initTable @ arrayJoin [] js, r'')))) (\<lambda>tableText r5.
                  Inr (''SELECT '' @ selectionsText @ tableText @ whereText @ groupByText
                       @ havingText, r5))))))"
| "renderTable r (BasicTable nm) = Inr (renderIdent nm, r)"
| "renderTable r (DerivedTable subQuery alias) =
     andThen (renderQuery r subQuery) (\<lambda>s r1. Inr (''('' @ s @ '') AS '' @ renderIdent alias, r1))"
| "renderTable r (FunctionTable func alias) =
     andThen (renderExpr r func) (\<lambda>s r1. Inr (''('' @ s @ '') AS '' @ renderIdent alias, r1))"
| "renderTable r (TableExtension v) = renderCustomTable r v"

subsection \<open>The clauses of a select\<close>

text \<open>
  The three constants \<^verbatim>\<open>selections\<close>, \<^verbatim>\<open>where\<close> and \<^verbatim>\<open>table\<close> of the body of
  \<open>renderSelect\<close>, each as a function of the renderer its evaluation starts from. They
  are the sub-terms of the equation of \<open>renderSelect\<close> above, named so that a statement
  about the text of a select can say from which renderer each clause is rendered.
\<close>

definition selectSelections ::
  "'x renderer \<Rightarrow> 'x selection list \<Rightarrow> (string, 'x) rendering" where
  "selectSelections r selections =
     andThen (mapArray (\<lambda>r s. case s of
                  AnonymousSelection e \<Rightarrow> renderExpr r e
                | AliasedSelection e alias \<Rightarrow>
                    andThen (renderExpr r e) (\<lambda>t r'. Inr (t @ '' AS '' @ renderIdent alias, r')))
              r selections) (\<lambda>ss r1. Inr (arrayJoin '', '' ss, r1))"

definition selectWhere :: "'x renderer \<Rightarrow> 'x expr option \<Rightarrow> (string, 'x) rendering" where
  "selectWhere r whr =
     (case whr of
        None \<Rightarrow> Inr ([], r)
      | Some e \<Rightarrow> andThen (renderExpr r e) (\<lambda>s r'. Inr ('' WHERE '' @ s, r')))"

definition selectTable ::
  "'x renderer \<Rightarrow> ('x table, 'x expr) joinedTable option \<Rightarrow> (string, 'x) rendering" where
  "selectTable r frm =
     (case frm of
        None \<Rightarrow> Inr ([], r)
      | Some (JoinedTable tbl joins) \<Rightarrow>
          andThen (renderTable r tbl) (\<lambda>initTable r'.
            andThen (mapArray (\<lambda>r j. case j of Join kind t onExpr \<Rightarrow>
                       andThen (renderTable r t) (\<lambda>ts r''.
                         andThen (renderExpr r'' onExpr) (\<lambda>os r'''.
                           Inr ('' '' @ kind @ '' JOIN '' @ ts @ '' ON '' @ os, r'''))))
                     r' joins) (\<lambda>js r''.
              Inr ('' FROM '' @ initTable @ arrayJoin [] js, r''))))"

subsection \<open>Data manipulation statements\<close>

text \<open>
  With \<open>values\<close> absent, the comparison with \<^verbatim>\<open>null\<close> fails and the switch reads
  \<^verbatim>\<open>_tag\<close> of \<^verbatim>\<open>undefined\<close>, which raises a \<^verbatim>\<open>TypeError\<close>.
\<close>

definition renderInsert :: "'x renderer \<Rightarrow> 'x insert \<Rightarrow> (string, 'x) rendering" where
  "renderInsert r ins =
     (let columns =
            (if length (insert_columns ins) = 0 then []
             else '' ('' @ arrayJoin '', '' (map renderIdent (insert_columns ins)) @ '')'')
      in andThen
           (case insert_values ins of
              Null \<Rightarrow> Inl InvalidInsert
            | Undefined \<Rightarrow> Inl TypeError
            | Value DefaultValues \<Rightarrow> Inr (''DEFAULT VALUES'', r)
            | Value (ValuesConstructor rows) \<Rightarrow>
                andThen
                  (mapArray (\<lambda>r row.
                     andThen
                       (mapArray (\<lambda>r c. case c of
                            DefaultValue \<Rightarrow> Inr (''DEFAULT'', r)
                          | ExprValue e \<Rightarrow> renderExpr r e) r row)
                       (\<lambda>vals r'. Inr (''('' @ arrayJoin '', '' vals @ '')'', r'))) r rows)
                  (\<lambda>rows' r'. Inr (''VALUES '' @ arrayJoin '', '' rows', r'))
            | Value (ValuesQuery q) \<Rightarrow> renderQuery r q)
           (\<lambda>vals r1.
              Inr (''INSERT INTO '' @ renderIdent (insert_table ins) @ columns @ '' '' @ vals, r1)))"

text \<open>
  The callback that \<open>renderUpdate\<close> and \<open>renderUpdatePositioned\<close> both map over the
  assignments.
\<close>

definition renderAssignment :: "'x renderer \<Rightarrow> ident \<times> 'x valueOrDefault \<Rightarrow> (string, 'x) rendering" where
  "renderAssignment r a =
     (case a of
        (nm, DefaultValue) \<Rightarrow> Inr (renderIdent nm @ '' = DEFAULT'', r)
      | (nm, ExprValue e) \<Rightarrow>
          andThen (renderExpr r e) (\<lambda>s r1. Inr (renderIdent nm @ '' = '' @ s, r1)))"

definition renderUpdate :: "'x renderer \<Rightarrow> 'x update \<Rightarrow> (string, 'x) rendering" where
  "renderUpdate r upd =
     andThen (mapArray renderAssignment r (update_assignments upd)) (\<lambda>ss r1.
       let sets = arrayJoin '', '' ss
       in andThen (case update_where upd of None \<Rightarrow> Inr ([], r1)
                   | Some e \<Rightarrow> andThen (renderExpr r1 e) (\<lambda>s r'. Inr ('' WHERE '' @ s, r'))) (\<lambda>whr r2.
            Inr (''UPDATE '' @ renderIdent (update_table upd) @ '' SET '' @ sets @ whr, r2)))"

definition renderUpdatePositioned ::
  "'x renderer \<Rightarrow> 'x updatePositioned \<Rightarrow> (string, 'x) rendering" where
  "renderUpdatePositioned r upd =
     andThen (mapArray renderAssignment r (updatePositioned_assignments upd)) (\<lambda>ss r1.
       let sets = arrayJoin '', '' ss
       in Inr (''UPDATE '' @ renderIdent (updatePositioned_table upd) @ '' SET '' @ sets
               @ '' WHERE CURRENT OF '' @ renderIdent (updatePositioned_cursor upd), r1))"

definition renderDelete :: "'x renderer \<Rightarrow> 'x delete \<Rightarrow> (string, 'x) rendering" where
  "renderDelete r del =
     andThen (case delete_where del of None \<Rightarrow> Inr ([], r)
              | Some e \<Rightarrow> andThen (renderExpr r e) (\<lambda>s r'. Inr ('' WHERE '' @ s, r'))) (\<lambda>whr r1.
       Inr (''DELETE FROM '' @ renderIdent (delete_table del) @ whr, r1))"

definition renderDeletePositioned ::
  "'x renderer \<Rightarrow> deletePositioned \<Rightarrow> (string, 'x) rendering" where
  "renderDeletePositioned r del =
     Inr (''DELETE FROM '' @ renderIdent (deletePositioned_table del)
          @ '' WHERE CURRENT OF '' @ renderIdent (deletePositioned_cursor del), r)"


subsection \<open>Schema statements\<close>

definition renderConstraintCheckTime :: "constraintCheckTime \<Rightarrow> string" where
  "renderConstraintCheckTime cct =
     (if deferrable cct \<and> initiallyDeferred cct then ''INITIALLY DEFERRED DEFERRABLE''
      else if deferrable cct then ''INITIALLY IMMEDIATE DEFERRABLE''
      else if initiallyDeferred cct then ''INITIALLY DEFERRED NOT DEFERRABLE''
      else ''INITIALLY IMMEDIATE NOT DEFERRABLE'')"

definition renderDefaultOption :: "'x renderer \<Rightarrow> 'x defaultOption \<Rightarrow> (string, 'x) rendering" where
  "renderDefaultOption r opt =
     andThen
       (case opt of
          DefaultLit literal \<Rightarrow> renderLiteral r literal
        | CurrentDateDefault \<Rightarrow> Inr (''CURRENT_DATE'', r)
        | CurrentTime precision \<Rightarrow>
            andThen (case precision of None \<Rightarrow> Inr ([], r)
                     | Some p \<Rightarrow> andThen (renderLiteral r p) (\<lambda>s r'. Inr ('' ('' @ s @ '')'', r')))
              (\<lambda>precision' r'. Inr (''CURRENT_TIME'' @ precision', r'))
        | CurrentTimeStamp precision \<Rightarrow>
            andThen (case precision of None \<Rightarrow> Inr ([], r)
                     | Some p \<Rightarrow> andThen (renderLiteral r p) (\<lambda>s r'. Inr ('' ('' @ s @ '')'', r')))
              (\<lambda>precision' r'. Inr (''CURRENT_TIMESTAMP'' @ precision', r'))
        | UserDefault \<Rightarrow> Inr (''USER'', r)
        | CurrentUserDefault \<Rightarrow> Inr (''CURRENT_USER'', r)
        | SessionUserDefault \<Rightarrow> Inr (''SESSION_USER'', r)
        | SystemUserDefault \<Rightarrow> Inr (''SYSTEM_USER'', r)
        | NullDefault \<Rightarrow> Inr (''NULL'', r))
       (\<lambda>val r1. Inr (''DEFAULT '' @ val, r1))"

definition renderDomainConstraint ::
  "'x renderer \<Rightarrow> ident option \<Rightarrow> 'x query \<Rightarrow> constraintCheckTime option \<Rightarrow> (string, 'x) rendering" where
  "renderDomainConstraint r nm e attrs =
     (let namePart = (case nm of None \<Rightarrow> [] | Some n \<Rightarrow> renderIdent n @ '' '')
      in andThen (renderQuery r e) (\<lambda>def r1.
           let attributes = (case attrs of None \<Rightarrow> [] | Some a \<Rightarrow> '' '' @ renderConstraintCheckTime a)
           in Inr (namePart @ def @ attributes, r1)))"

definition renderDomainDefinition :: "'x renderer \<Rightarrow> 'x domainDefinition \<Rightarrow> (string, 'x) rendering" where
  "renderDomainDefinition r def =
     andThen (case domain_default def of None \<Rightarrow> Inr ([], r)
              | Some d \<Rightarrow> andThen (renderDefaultOption r d) (\<lambda>s r'. Inr ('' '' @ s, r'))) (\<lambda>defaultOption r1.
       andThen (case domain_constraintExpr def of None \<Rightarrow> Inr ([], r1)
                | Some e \<Rightarrow>
                    andThen (renderDomainConstraint r1 (domain_constraintName def) e
                               (domain_constraintAttributes def))
                      (\<lambda>s r'. Inr ('' '' @ s, r'))) (\<lambda>constraint r2.
         let collation = (case domain_collation def of None \<Rightarrow> []
                          | Some c \<Rightarrow> '' COLLATE '' @ renderIdent c)
         in andThen (renderDataType r2 (domain_dataType def)) (\<lambda>dt r3.
              Inr (''CREATE DOMAIN '' @ renderIdent (domain_name def) @ '' AS '' @ dt
                   @ defaultOption @ constraint @ collation, r3))))"

definition renderUniqueConstraint :: "uniqueConstraint \<Rightarrow> string" where
  "renderUniqueConstraint c =
     (let typ = (if unique_primaryKey c then ''PRIMARY KEY'' else '' UNIQUE'');
          columns = arrayJoin '', '' (map renderIdent (unique_columns c))
      in '' '' @ typ @ '' ('' @ columns @ '')'')"

definition renderAction :: "referentialAction \<Rightarrow> string" where
  "renderAction action =
     (case action of
        Cascade \<Rightarrow> ''CASCADE''
      | SetNull \<Rightarrow> ''SET NULL''
      | SetDefault \<Rightarrow> ''SET DEFAULT''
      | NoAction \<Rightarrow> ''NO ACTION'')"

definition renderReferenceConstraint :: "referenceConstraint \<Rightarrow> string" where
  "renderReferenceConstraint def =
     (let columns = (case reference_columns def of None \<Rightarrow> []
                     | Some cs \<Rightarrow> '' ('' @ arrayJoin '', '' (map renderIdent cs) @ '')'');
          match = (case reference_matchType def of
                     Regular \<Rightarrow> [] | Full \<Rightarrow> '' FULL'' | Partial \<Rightarrow> '' PARTIAL'');
          onUpdate = (case reference_onUpdate def of None \<Rightarrow> []
                      | Some a \<Rightarrow> '' ON UPDATE'' @ renderAction a);
          onDelete = (case reference_onDelete def of None \<Rightarrow> []
                      | Some a \<Rightarrow> '' ON DELETE'' @ renderAction a)
      in ''REFERENCES '' @ renderIdent (reference_table def) @ columns @ match @ onUpdate @ onDelete)"

definition renderCheckConstraint :: "'x renderer \<Rightarrow> 'x checkConstraint \<Rightarrow> (string, 'x) rendering" where
  "renderCheckConstraint r def =
     andThen (renderQuery r (check_search def)) (\<lambda>s r1. Inr (''CHECK '' @ s, r1))"

definition renderColumnConstraint ::
  "'x renderer \<Rightarrow> 'x columnConstraintDefinition \<Rightarrow> (string, 'x) rendering" where
  "renderColumnConstraint r def =
     andThen
       (case columnConstraint_constraint def of
          ColumnNotNull \<Rightarrow> Inr ('' NOT NULL'', r)
        | ColumnUnique c \<Rightarrow> Inr (renderUniqueConstraint c, r)
        | ColumnReference c \<Rightarrow> Inr (renderReferenceConstraint c, r)
        | ColumnCheck c \<Rightarrow> renderCheckConstraint r c)
       (\<lambda>cstr r1.
          let namePart = (case columnConstraint_name def of None \<Rightarrow> []
                          | Some n \<Rightarrow> renderIdent n @ '' '');
              attributes = (case columnConstraint_attributes def of None \<Rightarrow> []
                            | Some a \<Rightarrow> '' '' @ renderConstraintCheckTime a)
          in Inr (namePart @ cstr @ attributes, r1))"

definition renderTableConstraint :: "'x renderer \<Rightarrow> 'x tableConstraint \<Rightarrow> (string, 'x) rendering" where
  "renderTableConstraint r def =
     (let namePart = (case tableConstraint_name def of None \<Rightarrow> []
                      | Some n \<Rightarrow> renderIdent n @ '' '')
      in andThen
           (case tableConstraint_constraint def of
              TableUnique c \<Rightarrow> Inr (renderUniqueConstraint c, r)
            | TableReference c \<Rightarrow> Inr (renderReferenceConstraint c, r)
            | TableCheck c \<Rightarrow> renderCheckConstraint r c)
           (\<lambda>constraint r1.
              let attributes = (case tableConstraint_checkTime def of None \<Rightarrow> []
                                | Some a \<Rightarrow> '' '' @ renderConstraintCheckTime a)
              in Inr (namePart @ constraint @ attributes, r1)))"

definition renderColumnDefinition :: "'x renderer \<Rightarrow> 'x columnDefinition \<Rightarrow> (string, 'x) rendering" where
  "renderColumnDefinition r def =
     andThen (case column_type def of
                DomainIdent i \<Rightarrow> Inr (renderIdent i, r)
              | ColumnDataType dt \<Rightarrow> renderDataType r dt) (\<lambda>typ r1.
       andThen (case column_default def of None \<Rightarrow> Inr ([], r1)
                | Some d \<Rightarrow> andThen (renderDefaultOption r1 d) (\<lambda>s r'. Inr ('' '' @ s, r'))) (\<lambda>defaultOption r2.
         andThen (mapArray renderColumnConstraint r2 (column_constraints def)) (\<lambda>cs r3.
           let constraints0 = arrayJoin '' '' cs;
               constraints = (if constraints0 \<noteq> [] then '' '' @ constraints0 else constraints0);
               collation = (case column_collation def of None \<Rightarrow> []
                            | Some c \<Rightarrow> '' COLLATE '' @ renderIdent c)
           in Inr (renderIdent (column_name def) @ '' '' @ typ @ defaultOption @ constraints
                   @ collation, r3))))"

definition renderTableDefinition :: "'x renderer \<Rightarrow> 'x tableDefinition \<Rightarrow> (string, 'x) rendering" where
  "renderTableDefinition r def =
     (let locality = (if table_mode def = GlobalTemp then '' GLOBAL TEMPORARY''
                      else if table_mode def = LocalTemp then '' Local TEMPORARY''
                      else [])
      in andThen (mapArray renderColumnDefinition r (table_columns def)) (\<lambda>columns r1.
           andThen (mapArray renderTableConstraint r1 (table_constraints def)) (\<lambda>constraints r2.
             let els = ''('' @ arrayJoin '', '' (columns @ constraints) @ '')'';
                 onCommit = (if table_onCommit def = Some OnCommitDelete then '' ON COMMIT DELETE ROWS''
                             else if table_onCommit def = Some OnCommitPreserve
                               then '' ON COMMIT PRESERVE ROWS''
                             else [])
             in Inr (''CREATE'' @ locality @ '' TABLE '' @ renderIdent (table_name def) @ '' '' @ els
                     @ onCommit, r2))))"

text \<open>
  The column list of a view is an array inside a template string: the host writes it as
  its elements joined by a comma, with no parentheses.
\<close>

definition renderViewDefinition :: "'x renderer \<Rightarrow> 'x viewDefinition \<Rightarrow> (string, 'x) rendering" where
  "renderViewDefinition r def =
     (let columns = (case view_columns def of None \<Rightarrow> []
                     | Some cs \<Rightarrow> '' '' @ arrayJoin '','' (map renderIdent cs))
      in andThen (renderQuery r (view_query def)) (\<lambda>query r1.
           let checkOption = (if view_checkOption def = Some Cascaded then '' WITH CASCADED CHECK OPTION''
                              else if view_checkOption def = Some Local then '' WITH LOCAL CHECK OPTION''
                              else [])
           in Inr (''CREATE VIEW '' @ renderIdent (view_name def) @ columns @ '' AS '' @ query
                   @ checkOption, r1)))"

text \<open>
  \<open>renderPrivilege\<close> reads \<^verbatim>\<open>this.renderIdent\<close> when a privilege has a column list. Its
  first argument is \<^verbatim>\<open>this\<close>: \<open>None\<close> when the method is called detached from the
  renderer, as \<open>renderGrantStatement\<close> does by passing it to \<^verbatim>\<open>map\<close>; the read then
  raises a \<^verbatim>\<open>TypeError\<close>.
\<close>

definition renderPrivilege :: "'x renderer option \<Rightarrow> privilege \<Rightarrow> error + string" where
  "renderPrivilege this def =
     (let columnList = (\<lambda>columns. case columns of
                          None \<Rightarrow> Inr []
                        | Some cs \<Rightarrow>
                            (case this of
                               None \<Rightarrow> Inl TypeError
                             | Some _ \<Rightarrow> Inr ('' ('' @ arrayJoin '', '' (map renderIdent cs) @ '')'')))
      in case def of
           SelectPrivilege \<Rightarrow> Inr ''SELECT''
         | DeletePrivilege \<Rightarrow> Inr ''DELETE''
         | InsertPrivilege columns \<Rightarrow> map_sum id (\<lambda>c. ''INSERT'' @ c) (columnList columns)
         | UpdatePrivilege columns \<Rightarrow> map_sum id (\<lambda>c. ''UPDATE'' @ c) (columnList columns)
         | ReferencePrivilege columns \<Rightarrow> map_sum id (\<lambda>c. ''REFERENCES'' @ c) (columnList columns)
         | UsagePrivilege \<Rightarrow> Inr ''USAGE'')"

definition renderGrantStatement :: "'x renderer \<Rightarrow> grantStatement \<Rightarrow> (string, 'x) rendering" where
  "renderGrantStatement r def =
     (let objectType = (case grant_objectType def of
                          Table \<Rightarrow> ''TABLE ''
                        | Domain \<Rightarrow> ''DOMAIN ''
                        | Collation \<Rightarrow> ''COLLATION ''
                        | CharacterSet \<Rightarrow> ''CHARACTER SET ''
                        | Translation \<Rightarrow> ''TRANSLATION '');
          objectName = objectType @ renderIdent (grant_objectName def)
      in andThen (case grant_privileges def of
                    None \<Rightarrow> Inr (''ALL PRIVILEGES'', r)
                  | Some ps \<Rightarrow>
                      andThen (mapArray (\<lambda>r p. map_sum id (\<lambda>s. (s, r))
                                           (renderPrivilege (None :: 'x renderer option) p)) r ps)
                        (\<lambda>ss r'. Inr (arrayJoin '', '' ss, r'))) (\<lambda>privileges r1.
           let grantees = (case grant_grantees def of None \<Rightarrow> ''PUBLIC''
                           | Some gs \<Rightarrow> arrayJoin '', '' (map renderIdent gs));
               option = (if grant_grantOption def then '' WITH GRANT OPTION'' else [])
           in Inr (''GRANT '' @ privileges @ '' ON '' @ objectName @ '' TO '' @ grantees @ option, r1)))"

definition renderAssertionDefinition ::
  "'x renderer \<Rightarrow> 'x assertionDefinition \<Rightarrow> (string, 'x) rendering" where
  "renderAssertionDefinition r def =
     (let attributes = (case assertion_checkTime def of None \<Rightarrow> []
                        | Some a \<Rightarrow> '' '' @ renderConstraintCheckTime a)
      in andThen (renderQuery r (assertion_search def)) (\<lambda>s r1.
           Inr (''CREATE ASSERTION '' @ renderIdent (assertion_name def) @ '' CHECK ('' @ s @ '')''
                @ attributes, r1)))"

text \<open>
  For a domain definition among the definitions of a schema, the callback of
  \<open>renderCreateSchema\<close> returns the method \<^verbatim>\<open>this.renderDomainDefinition\<close> itself, not a
  call of it, and \<^verbatim>\<open>null\<close> for the other kinds. \<^verbatim>\<open>join\<close> writes \<^verbatim>\<open>null\<close> as the empty
  string and a function as its source text, which the host decides: \<open>methodText\<close> is
  that text.
\<close>

definition renderCreateSchema ::
  "string \<Rightarrow> 'x renderer \<Rightarrow> 'x createSchema \<Rightarrow> (string, 'x) rendering" where
  "renderCreateSchema methodText r schema =
     (let ret0 = (case schema_catalog schema of None \<Rightarrow> []
                  | Some c \<Rightarrow> renderIdent c @ ''.'');
          nm = (case schema_name schema of None \<Rightarrow> ret0
                | Some n \<Rightarrow> ret0 @ renderIdent n @ '' '');
          auth = (case schema_authorization schema of None \<Rightarrow> []
                  | Some a \<Rightarrow> ''AUTHORIZATION '' @ renderIdent a @ '' '');
          charSet = (case schema_characterSet schema of None \<Rightarrow> []
                     | Some c \<Rightarrow> ''DEFAULT CHARACTER SET '' @ renderIdent c @ '' '');
          defs0 = arrayJoin '' '' (map (\<lambda>def. case def of
                                           SchemaDomainDefinition _ \<Rightarrow> methodText
                                         | SchemaTableDefinition _ \<Rightarrow> []
                                         | SchemaViewDefinition _ \<Rightarrow> []
                                         | SchemaGrantStatement _ \<Rightarrow> []
                                         | SchemaAssertionDefinition _ \<Rightarrow> [])
                                   (schema_definitions schema));
          defs = (if defs0 \<noteq> [] then '' '' @ defs0 else defs0)
      in Inr (''CREATE SCHEMA '' @ nm @ auth @ charSet @ defs, r))"


subsection \<open>The statement switch\<close>

text \<open>
  What \<open>renderStatement\<close> hands back: the text of the branch taken, or, from the
  \<^verbatim>\<open>default\<close> branch, what \<^verbatim>\<open>exhaustive(statement)\<close> returns, which at run time is the
  statement itself and no text.
\<close>

datatype 'x rendered = Sql string | Unrendered "'x statement"

definition sql :: "(string, 'x) rendering \<Rightarrow> ('x rendered, 'x) rendering" where
  "sql m = andThen m (\<lambda>s r. Inr (Sql s, r))"

fun renderStatement ::
  "string \<Rightarrow> 'x renderer \<Rightarrow> 'x statement \<Rightarrow> ('x rendered, 'x) rendering" where
  "renderStatement methodText r (StmtQuery q) = sql (renderQuery r q)"
| "renderStatement methodText r (StmtInsert i) = sql (renderInsert r i)"
| "renderStatement methodText r (StmtUpdate u) = sql (renderUpdate r u)"
| "renderStatement methodText r (StmtDelete d) = sql (renderDelete r d)"
| "renderStatement methodText r (StmtUpdatePositioned u) = sql (renderUpdatePositioned r u)"
| "renderStatement methodText r (StmtDeletePositioned d) = sql (renderDeletePositioned r d)"
| "renderStatement methodText r (StmtCreateSchema s) = sql (renderCreateSchema methodText r s)"
| "renderStatement methodText r (StmtTableDefinition d) = sql (renderTableDefinition r d)"
| "renderStatement methodText r (StmtViewDefinition d) = sql (renderViewDefinition r d)"
| "renderStatement methodText r (StmtGrantStatement g) = sql (renderGrantStatement r g)"
| "renderStatement methodText r (StmtDomainDefinition d) = sql (renderDomainDefinition r d)"
| "renderStatement methodText r (StmtAssertionDefinition d) = sql (renderAssertionDefinition r d)"
| "renderStatement methodText r statement = Inr (Unrendered statement, r)"

subsection \<open>Reading a rendering back\<close>

text \<open>
  What it is for a text to be the decimal numeral of a number, said without the function
  that writes it. A text is the numeral of a natural number when it is not empty,
  consists of digits, does not start with a zero unless it is the one digit \<^verbatim>\<open>0\<close>, and
  has the number as its value in base ten. It is the numeral of a negative integer when
  it is a minus sign followed by the numeral of the magnitude.
\<close>

definition isDigit :: "char \<Rightarrow> bool" where
  "isDigit c = (c \<in> set ''0123456789'')"

definition digitValue :: "char \<Rightarrow> nat" where
  "digitValue c = of_char c - 48"

definition decimalValue :: "string \<Rightarrow> nat" where
  "decimalValue s = foldl (\<lambda>a c. 10 * a + digitValue c) 0 s"

definition naturalNumeral :: "string \<Rightarrow> nat \<Rightarrow> bool" where
  "naturalNumeral t m =
     (t \<noteq> [] \<and> list_all isDigit t \<and> (length t = 1 \<or> hd t \<noteq> CHR ''0'') \<and> decimalValue t = m)"

definition decimalNumeral :: "string \<Rightarrow> int \<Rightarrow> bool" where
  "decimalNumeral t v =
     (if v < 0 then t \<noteq> [] \<and> hd t = CHR ''-'' \<and> naturalNumeral (tl t) (nat (- v))
      else naturalNumeral t (nat v))"

text \<open>
  The round trip of the parameter buffer, in the words of the spec (section 8); the
  repository has no function for it, so this one is not a translation of code. Putting the
  returned parameters back into the returned placeholders, in order, is
  \<open>substitutePlaceholders\<close> for the \<^verbatim>\<open>?\<close> style: each placeholder of the text, from
  left to right, is replaced by the next value of the buffer, written by \<open>inlineValue\<close>
  the way inline mode writes a literal of that value.
\<close>

definition inlineValue :: "'x jsvalue \<Rightarrow> string" where
  "inlineValue v =
     (case v of
        JsNumber n \<Rightarrow> numberToString n
      | JsString s \<Rightarrow> [CHR 0x27] @ s @ [CHR 0x27]
      | JsBoolean b \<Rightarrow> (if b then ''TRUE'' else ''FALSE'')
      | JsNull \<Rightarrow> ''NULL''
      | JsUndefined \<Rightarrow> []
      | JsDate d \<Rightarrow>
          (case d of
             ValidDate text \<Rightarrow> ''DATE '' @ [CHR 0x27] @ text @ [CHR 0x27]
           | InvalidDate \<Rightarrow> [])
      | JsCustom c \<Rightarrow> [])"

fun substitutePlaceholders :: "string \<Rightarrow> string list \<Rightarrow> string" where
  "substitutePlaceholders [] vs = []"
| "substitutePlaceholders (c # cs) [] = c # cs"
| "substitutePlaceholders (c # cs) (v # vs) =
     (if c = CHR ''?'' then v @ substitutePlaceholders cs vs
      else c # substitutePlaceholders cs (v # vs))"

section \<open>Properties\<close>

subsection \<open>Auxiliary facts\<close>

lemma andThen_eq_Inr:
  "andThen m f = Inr y \<longleftrightarrow> (\<exists>a s. m = Inr (a, s) \<and> f a s = Inr y)"
  by (cases m) (auto simp: andThen_def)

text \<open>
  What \<open>mapArray\<close> returns has one value for each element, each the value of the
  callback on that element in some state of the renderer.
\<close>

lemma mapArray_Inr:
  "mapArray f s xs = Inr (ys, s') \<Longrightarrow>
   list_all2 (\<lambda>x y. \<exists>sa sb. f sa x = Inr (y, sb)) xs ys"
proof (induction xs arbitrary: s ys)
  case Nil
  then show ?case by simp
next
  case (Cons x xs)
  from Cons.prems obtain y s1 zs where
    "f s x = Inr (y, s1)" "mapArray f s1 xs = Inr (zs, s')" "ys = y # zs"
    by (auto simp: andThen_eq_Inr)
  with Cons.IH show ?case by auto
qed

lemma if_andThen_mapArray:
  assumes "(if length xs = 0 then Inr ([], s)
            else andThen (mapArray f s xs) (\<lambda>ys s'. Inr (g ys, s'))) = Inr (t, s'')"
  shows "if xs = [] then t = []
         else \<exists>ys. t = g ys \<and> length ys = length xs \<and>
                list_all2 (\<lambda>x y. \<exists>sa sb. f sa x = Inr (y, sb)) xs ys"
proof (cases "xs = []")
  case True
  with assms show ?thesis by simp
next
  case False
  with assms obtain ys s1 where "mapArray f s xs = Inr (ys, s1)" "t = g ys"
    by (auto simp: andThen_eq_Inr)
  moreover from this mapArray_Inr [of f s xs ys s1]
  have "list_all2 (\<lambda>x y. \<exists>sa sb. f sa x = Inr (y, sb)) xs ys" by simp
  moreover from this have "length ys = length xs" by (simp add: list_all2_lengthD)
  ultimately show ?thesis using False by auto
qed

lemma andThen_assoc:
  "andThen (andThen m f) g = andThen m (\<lambda>a s. andThen (f a s) g)"
  by (cases m) (auto simp: andThen_def)

text \<open>A safe integer is held exactly.\<close>

lemma integerValue_SafeInteger: "\<bar>n\<bar> < 2 ^ 53 \<Longrightarrow> integerValue (SafeInteger n) = n"
  by (simp add: SafeInteger_inverse)

lemma digitValue_digitChar: "d < 10 \<Longrightarrow> digitValue (digitChar d) = d"
proof -
  assume "d < 10"
  then have "d = 0 \<or> d = 1 \<or> d = 2 \<or> d = 3 \<or> d = 4 \<or> d = 5 \<or> d = 6 \<or> d = 7 \<or> d = 8 \<or> d = 9"
    by arith
  then show ?thesis
    by (auto simp: digitChar_def digitValue_def)
qed

lemma isDigit_digitChar: "d < 10 \<Longrightarrow> isDigit (digitChar d)"
proof -
  assume "d < 10"
  then have "d = 0 \<or> d = 1 \<or> d = 2 \<or> d = 3 \<or> d = 4 \<or> d = 5 \<or> d = 6 \<or> d = 7 \<or> d = 8 \<or> d = 9"
    by arith
  then show ?thesis
    by (auto simp: digitChar_def isDigit_def)
qed

lemma digitChar_zero: "d < 10 \<Longrightarrow> digitChar d = CHR ''0'' \<longleftrightarrow> d = 0"
proof -
  assume "d < 10"
  then have "d = 0 \<or> d = 1 \<or> d = 2 \<or> d = 3 \<or> d = 4 \<or> d = 5 \<or> d = 6 \<or> d = 7 \<or> d = 8 \<or> d = 9"
    by arith
  then show ?thesis
    by (auto simp: digitChar_def)
qed

lemma digitChar_digitValue: "isDigit c \<Longrightarrow> digitChar (digitValue c) = c \<and> digitValue c < 10"
  by (auto simp: digitChar_def digitValue_def isDigit_def)

lemma decimalValue_snoc: "decimalValue (s @ [c]) = 10 * decimalValue s + digitValue c"
  by (simp add: decimalValue_def)

lemma digits_not_Nil: "digits n \<noteq> []"
  by (subst digits.simps) simp

lemma digits_all_digits: "list_all isDigit (digits n)"
proof (induction n rule: digits.induct)
  case (1 n)
  show ?case
  proof (cases "n < 10")
    case True
    then show ?thesis by (simp add: digits.simps [of n] isDigit_digitChar)
  next
    case False
    with "1" have "list_all isDigit (digits (n div 10))" by simp
    with False show ?thesis by (simp add: digits.simps [of n] isDigit_digitChar)
  qed
qed

lemma digits_length_one: "length (digits n) = 1 \<longleftrightarrow> n < 10"
proof (cases "n < 10")
  case True
  then show ?thesis by (simp add: digits.simps [of n])
next
  case False
  have "length (digits (n div 10)) \<noteq> 0" using digits_not_Nil [of "n div 10"] by simp
  with False show ?thesis by (simp add: digits.simps [of n])
qed

lemma hd_digits: "0 < n \<Longrightarrow> hd (digits n) \<noteq> CHR ''0''"
proof (induction n rule: digits.induct)
  case (1 n)
  show ?case
  proof (cases "n < 10")
    case True
    with "1.prems" show ?thesis by (simp add: digits.simps [of n] digitChar_zero)
  next
    case False
    then have "0 < n div 10" by simp
    with "1.IH" False have "hd (digits (n div 10)) \<noteq> CHR ''0''" by blast
    with False show ?thesis by (simp add: digits.simps [of n] digits_not_Nil)
  qed
qed

text \<open>The text of a number is its decimal numeral: read back, it gives the number.\<close>

lemma decimalValue_digits: "decimalValue (digits n) = n"
proof (induction n rule: digits.induct)
  case (1 n)
  show ?case
  proof (cases "n < 10")
    case True
    then show ?thesis
      by (simp add: digits.simps [of n] decimalValue_def digitValue_digitChar)
  next
    case False
    with "1" have "decimalValue (digits (n div 10)) = n div 10" by simp
    with False show ?thesis
      by (simp add: digits.simps [of n] decimalValue_snoc digitValue_digitChar)
  qed
qed

lemma decimalText_nonneg: "0 \<le> v \<Longrightarrow> int (decimalValue (decimalText v)) = v"
  by (simp add: decimalText_def decimalValue_digits)

text \<open>
  \<open>digits\<close> writes the numeral of a natural number, and no other text is that numeral;
  so \<open>decimalText\<close> writes the decimal numeral of an integer, and nothing else is it.
\<close>

lemma naturalNumeral_digits: "naturalNumeral (digits n) n"
proof -
  have "length (digits n) = 1 \<or> hd (digits n) \<noteq> CHR ''0''"
  proof (cases "n < 10")
    case True
    with digits_length_one [of n] show ?thesis by simp
  next
    case False
    then have "0 < n" by simp
    then show ?thesis by (simp add: hd_digits)
  qed
  then show ?thesis
    by (simp add: naturalNumeral_def digits_not_Nil digits_all_digits decimalValue_digits)
qed

lemma naturalNumeral_unique: "naturalNumeral t m \<Longrightarrow> t = digits m"
proof (induction t arbitrary: m rule: rev_induct)
  case Nil
  then show ?case by (simp add: naturalNumeral_def)
next
  case (snoc c s)
  from snoc.prems have c: "isDigit c" and all: "list_all isDigit s"
    and m: "m = 10 * decimalValue s + digitValue c"
    and lead: "length (s @ [c]) = 1 \<or> hd (s @ [c]) \<noteq> CHR ''0''"
    by (auto simp: naturalNumeral_def decimalValue_snoc)
  from c have dc: "digitChar (digitValue c) = c" "digitValue c < 10"
    by (simp_all add: digitChar_digitValue)
  show ?case
  proof (cases "s = []")
    case True
    with m have "m = digitValue c" by (simp add: decimalValue_def)
    with dc True show ?thesis by (simp add: digits.simps [of "digitValue c"])
  next
    case False
    with lead have h: "hd s \<noteq> CHR ''0''" by simp
    with False all have "naturalNumeral s (decimalValue s)"
      by (simp add: naturalNumeral_def)
    then have s: "s = digits (decimalValue s)" by (rule snoc.IH)
    have "decimalValue s \<noteq> 0"
    proof
      assume "decimalValue s = 0"
      with s have "s = digits 0" by simp
      then have "s = ''0''" by (simp add: digits.simps [of 0] digitChar_def)
      with h show False by simp
    qed
    with m dc have "\<not> m < 10" "m div 10 = decimalValue s" "m mod 10 = digitValue c"
      by simp_all
    with s dc show ?thesis by (simp add: digits.simps [of m])
  qed
qed

lemma naturalNumeral_iff: "naturalNumeral t m \<longleftrightarrow> t = digits m"
  using naturalNumeral_unique naturalNumeral_digits by blast

lemma decimalNumeral_iff: "decimalNumeral t v \<longleftrightarrow> t = decimalText v"
  by (cases t) (auto simp: decimalNumeral_def decimalText_def naturalNumeral_iff)

text \<open>
  In parameter mode every literal, whatever its kind, is pushed onto the buffer (the null
  literal as \<^verbatim>\<open>null\<close>) and rendered as the placeholder of the new length of the buffer.
\<close>

lemma renderLiteral_paramsMode:
  "paramsMode r \<Longrightarrow>
   renderLiteral r literal =
     Inr ((if placeHolderStyle r = QuestionMark then ''?''
           else ''$'' @ decimalText (int (length (params r)) + 1)),
          r\<lparr>params := params r @ [if literal = NullLit then JsNull else literalVal literal]\<rparr>)"
  by (cases literal) (simp_all add: renderLiteral_def renderPlaceholder_def literalVal_def
        Let_def add.commute)

subsection \<open>The statement switch\<close>

text \<open>
  The \<^verbatim>\<open>default\<close> branch is taken for the revoke statement and the drop statements and
  for no other statement.
\<close>

lemma renderStatement_Unrendered:
  assumes "renderStatement methodText r st = Inr (Unrendered u, r')"
  shows "u = st \<and> r' = r \<and>
    ((\<exists>x. st = StmtRevokeStatement x) \<or> (\<exists>x. st = StmtDropTable x) \<or> (\<exists>x. st = StmtDropView x)
     \<or> (\<exists>x. st = StmtDropDomain x) \<or> (\<exists>x. st = StmtDropAssertion x))"
  using assms by (cases st) (auto simp: sql_def andThen_eq_Inr)

text \<open>
  C1. Every variant of the statement family has a branch in \<open>renderStatement\<close>, so that
  the fallback of the switch is never reached. The code does not have this property:
  the switch has no case for the revoke statement and the four drop statements, and for
  each of them \<open>renderStatement\<close> takes the \<^verbatim>\<open>default\<close> branch and hands the statement
  back in place of SQL text, leaving the renderer as it was.
\<close>

theorem renderStatement_fallback:
  "renderStatement methodText r (StmtRevokeStatement rv) =
     Inr (Unrendered (StmtRevokeStatement rv), r)
   \<and> renderStatement methodText r (StmtDropTable dt) = Inr (Unrendered (StmtDropTable dt), r)
   \<and> renderStatement methodText r (StmtDropView dv) = Inr (Unrendered (StmtDropView dv), r)
   \<and> renderStatement methodText r (StmtDropDomain dd) = Inr (Unrendered (StmtDropDomain dd), r)
   \<and> renderStatement methodText r (StmtDropAssertion da) =
     Inr (Unrendered (StmtDropAssertion da), r)"
  by simp

subsection \<open>Insert\<close>

text \<open>
  C2. Rendering an insert whose \<open>values\<close> field is \<^verbatim>\<open>null\<close> or absent raises an error,
  through \<open>renderInsert\<close> itself and through \<open>renderStatement\<close>: the result is the
  error and no text, whatever the table, the columns and the renderer. For \<^verbatim>\<open>null\<close> the
  error is the one \<open>renderInsert\<close> throws; for an absent field it is the host's
  \<^verbatim>\<open>TypeError\<close>.
\<close>

theorem renderInsert_without_values:
  assumes "insert_values ins = Null \<or> insert_values ins = Undefined"
  shows "renderInsert r ins = Inl (if insert_values ins = Null then InvalidInsert else TypeError)
    \<and> renderStatement methodText r (StmtInsert ins) =
        Inl (if insert_values ins = Null then InvalidInsert else TypeError)"
  using assms by (auto simp: renderInsert_def sql_def Let_def)

theorem renderInsert_without_values_witness:
  "renderInsert (newRenderer (Some True) None)
        \<lparr>insert_table = Ident ''employee'', insert_columns = [Ident ''id''],
         insert_values = Null :: unit insertValues required\<rparr> = Inl InvalidInsert
   \<and> renderStatement [] (newRenderer (Some True) None)
        (StmtInsert \<lparr>insert_table = Ident ''employee'', insert_columns = [Ident ''id''],
                     insert_values = Null :: unit insertValues required\<rparr>) = Inl InvalidInsert
   \<and> renderInsert (newRenderer None None)
        \<lparr>insert_table = Ident ''employee'', insert_columns = [],
         insert_values = Undefined :: unit insertValues required\<rparr> = Inl TypeError
   \<and> renderStatement [] (newRenderer None None)
        (StmtInsert \<lparr>insert_table = Ident ''employee'', insert_columns = [],
                     insert_values = Undefined :: unit insertValues required\<rparr>) = Inl TypeError"
  using
    renderInsert_without_values
      [of "\<lparr>insert_table = Ident ''employee'', insert_columns = [Ident ''id''],
            insert_values = Null :: unit insertValues required\<rparr>"
          "newRenderer (Some True) None" "[]"]
    renderInsert_without_values
      [of "\<lparr>insert_table = Ident ''employee'', insert_columns = [],
            insert_values = Undefined :: unit insertValues required\<rparr>"
          "newRenderer None None" "[]"]
  by (simp add: sql_def)

subsection \<open>Parameters and placeholders\<close>

text \<open>
  C3. In parameter mode every literal is pushed onto the buffer and replaced by the
  placeholder of the new length, and the positions of the buffer follow the order in
  which the placeholders occur in the text. The first half holds
  (\<open>renderLiteral_paramsMode\<close>); the second does not hold of the code. \<open>renderQuery\<close>
  renders the limit before the selection and writes it after: for a query that selects
  the literal 1 with the limit 2, the buffer is 2, 1, while the text has the placeholder
  of 1 first. In the \<^verbatim>\<open>?\<close> style the two placeholders are alike, so the first one is
  bound to the limit; in the \<^verbatim>\<open>$\<close> style the text reads \<^verbatim>\<open>$2\<close> before \<^verbatim>\<open>$1\<close>.
\<close>

theorem renderQuery_limit_placeholder_order:
  "renderStatement methodText \<lparr>params = [], paramsMode = True, placeHolderStyle = QuestionMark\<rparr>
     (StmtQuery (Query []
        (Select [AnonymousSelection (Lit (NumLit (NumberVal (Integer (SafeInteger 1)))))] None None [] None)
        [] [] (Some (Lit (NumLit (NumberVal (Integer (SafeInteger 2)))))) None))
   = Inr (Sql ''SELECT ? LIMIT ?'',
          \<lparr>params = [JsNumber (Integer (SafeInteger 2)), JsNumber (Integer (SafeInteger 1)) :: 'x jsvalue], paramsMode = True,
           placeHolderStyle = QuestionMark\<rparr>)
   \<and> renderStatement methodText \<lparr>params = [], paramsMode = True, placeHolderStyle = Dollar\<rparr>
     (StmtQuery (Query []
        (Select [AnonymousSelection (Lit (NumLit (NumberVal (Integer (SafeInteger 1)))))] None None [] None)
        [] [] (Some (Lit (NumLit (NumberVal (Integer (SafeInteger 2)))))) None))
   = Inr (Sql ''SELECT $2 LIMIT $1'',
          \<lparr>params = [JsNumber (Integer (SafeInteger 2)), JsNumber (Integer (SafeInteger 1)) :: 'x jsvalue], paramsMode = True,
           placeHolderStyle = Dollar\<rparr>)"
  by (simp add: sql_def renderLiteral_def renderPlaceholder_def literalVal_def
        decimalText_def integerValue_SafeInteger digits.simps digitChar_def)

text \<open>
  C4. The insert into \<open>employee\<close> of the row 5, Charlotte, 5000, 55 under the columns
  id, name, salary, department_id renders inline as the first text below, with the buffer
  left empty, and in parameter mode with the \<^verbatim>\<open>$\<close> style as the second text, with the
  four values in the buffer in the order of the row.
\<close>

theorem renderInsert_employee:
  \<open>renderStatement methodText (newRenderer None None)
     (StmtInsert
       \<lparr>insert_table = Ident ''employee'',
        insert_columns = [Ident ''id'', Ident ''name'', Ident ''salary'', Ident ''department_id''],
        insert_values = Value (ValuesConstructor
          [[ExprValue (Lit (NumLit (NumberVal (Integer (SafeInteger 5))))), ExprValue (Lit (StringLit ''Charlotte'')),
            ExprValue (Lit (NumLit (NumberVal (Integer (SafeInteger 5000))))), ExprValue (Lit (NumLit (NumberVal (Integer (SafeInteger 55)))))]])\<rparr>)
   = Inr (Sql ''INSERT INTO "employee" ("id", "name", "salary", "department_id") VALUES (5, 'Charlotte', 5000, 55)'',
          newRenderer None None :: 'x renderer)
   \<and> renderStatement methodText (newRenderer (Some True) (Some Dollar))
     (StmtInsert
       \<lparr>insert_table = Ident ''employee'',
        insert_columns = [Ident ''id'', Ident ''name'', Ident ''salary'', Ident ''department_id''],
        insert_values = Value (ValuesConstructor
          [[ExprValue (Lit (NumLit (NumberVal (Integer (SafeInteger 5))))), ExprValue (Lit (StringLit ''Charlotte'')),
            ExprValue (Lit (NumLit (NumberVal (Integer (SafeInteger 5000))))), ExprValue (Lit (NumLit (NumberVal (Integer (SafeInteger 55)))))]])\<rparr>)
   = Inr (Sql ''INSERT INTO "employee" ("id", "name", "salary", "department_id") VALUES ($1, $2, $3, $4)'',
          \<lparr>params = [JsNumber (Integer (SafeInteger 5)), JsString ''Charlotte'', JsNumber (Integer (SafeInteger 5000)), JsNumber (Integer (SafeInteger 55)) :: 'x jsvalue],
           paramsMode = True, placeHolderStyle = Dollar\<rparr>)\<close>
  by (simp add: newRenderer_def sql_def renderInsert_def renderIdent_def renderLiteral_def
        renderPlaceholder_def literalVal_def decimalText_def integerValue_SafeInteger digits.simps digitChar_def)

subsection \<open>Inline literals\<close>

text \<open>
  C5. With parameter mode off, \<open>renderLiteral\<close> writes every built-in literal inline
  and leaves the renderer as it is: a number as its decimal text, a pre-formatted numeric
  string as it stands, a string between single quotes with nothing escaped, a boolean as
  \<open>TRUE\<close> or \<open>FALSE\<close>, null as \<open>NULL\<close>, and a date as \<open>DATE\<close> followed by its ISO text
  between single quotes. Said of every built-in literal, this does not hold of the code
  (the counterexample below): a number is written as the host
  converts it and a date through \<^verbatim>\<open>toISOString()\<close>, with no check before either. What
  holds is this. With parameter mode off, \<open>renderLiteral\<close> leaves the renderer as it is
  and

    \<^item> writes a number that is an integer of magnitude below \<open>2 ^ 53\<close> as its decimal
      numeral, in the sense of \<open>decimalNumeral\<close>;

    \<^item> writes the number NaN as \<open>NaN\<close> and the infinities as \<open>Infinity\<close> and
      \<open>-Infinity\<close>;

    \<^item> writes any other number as the text the host gives for it;

    \<^item> writes a pre-formatted numeric string as it stands, a string between single quotes
      with nothing escaped, a boolean as \<open>TRUE\<close> or \<open>FALSE\<close>, and null as \<open>NULL\<close>;

    \<^item> writes a valid date as \<open>DATE\<close> followed by its ISO text between single quotes, and
      raises the host's \<^verbatim>\<open>RangeError\<close> on an invalid date.

  (\<open>CHR 0x27\<close> is the single quote.)
\<close>

theorem renderLiteral_inline:
  assumes "\<not> paramsMode r"
  shows "(\<exists>t. renderLiteral r (NumLit (NumberVal (Integer n))) = Inr (t, r)
             \<and> decimalNumeral t (integerValue n))
    \<and> renderLiteral r (NumLit (NumberVal NaN)) = Inr (''NaN'', r)
    \<and> renderLiteral r (NumLit (NumberVal PositiveInfinity)) = Inr (''Infinity'', r)
    \<and> renderLiteral r (NumLit (NumberVal NegativeInfinity)) = Inr (''-Infinity'', r)
    \<and> renderLiteral r (NumLit (NumberVal (OtherFinite w))) = Inr (w, r)
    \<and> renderLiteral r (NumLit (StringVal v)) = Inr (v, r)
    \<and> renderLiteral r (StringLit s) = Inr ([CHR 0x27] @ s @ [CHR 0x27], r)
    \<and> renderLiteral r (BoolLit True) = Inr (''TRUE'', r)
    \<and> renderLiteral r (BoolLit False) = Inr (''FALSE'', r)
    \<and> renderLiteral r NullLit = Inr (''NULL'', r)
    \<and> renderLiteral r (DateLit (ValidDate text)) =
        Inr (''DATE '' @ [CHR 0x27] @ text @ [CHR 0x27], r)
    \<and> renderLiteral r (DateLit InvalidDate) = Inl RangeError"
  using assms by (simp add: renderLiteral_def toISOString_def decimalNumeral_iff)

theorem renderLiteral_inline_witness:
  \<open>\<not> paramsMode (newRenderer None None :: unit renderer)
   \<and> renderLiteral (newRenderer None None :: unit renderer)
        (NumLit (NumberVal (Integer (SafeInteger 5000))))
       = Inr (''5000'', newRenderer None None)
   \<and> decimalNumeral ''5000'' (integerValue (SafeInteger 5000))
   \<and> renderLiteral (newRenderer None None :: unit renderer)
        (NumLit (NumberVal (Integer (SafeInteger (- 12)))))
       = Inr (''-12'', newRenderer None None)
   \<and> decimalNumeral ''-12'' (integerValue (SafeInteger (- 12)))
   \<and> renderLiteral (newRenderer None None :: unit renderer)
        (NumLit (NumberVal (OtherFinite ''1e+21'')))
       = Inr (''1e+21'', newRenderer None None)
   \<and> renderLiteral (newRenderer None None :: unit renderer) (NumLit (StringVal ''1e-7''))
       = Inr (''1e-7'', newRenderer None None)
   \<and> renderLiteral (newRenderer None None :: unit renderer) (StringLit ''O'Hara'')
       = Inr (''\'O'Hara'' @ [CHR 0x27], newRenderer None None)
   \<and> renderLiteral (newRenderer None None :: unit renderer)
        (DateLit (ValidDate ''2020-01-02T03:04:05.000Z''))
       = Inr (''DATE '2020-01-02T03:04:05.000Z'' @ [CHR 0x27], newRenderer None None)
   \<and> renderLiteral (newRenderer None None :: unit renderer) (DateLit InvalidDate)
       = Inl RangeError\<close>
  using
    renderLiteral_inline [of "newRenderer None None :: unit renderer" "SafeInteger 5000"
      "''1e+21''" "''1e-7''" \<open>''O'Hara''\<close> "''2020-01-02T03:04:05.000Z''"]
    renderLiteral_inline [of "newRenderer None None :: unit renderer" "SafeInteger (- 12)"
      "''1e+21''" "''1e-7''" \<open>''O'Hara''\<close> "''2020-01-02T03:04:05.000Z''"]
  by (simp add: newRenderer_def renderLiteral_def toISOString_def decimalText_def
      integerValue_SafeInteger digits.simps digitChar_def decimalNumeral_def naturalNumeral_def
      isDigit_def decimalValue_def digitValue_def)

text \<open>
  Where the unrestricted statement fails: a literal of an invalid date (as
  \<^verbatim>\<open>new Date('')\<close> is) renders as no text at all, the call raises; and a literal of the
  number \<^verbatim>\<open>Infinity\<close> or \<^verbatim>\<open>NaN\<close> renders as that name, which is not the decimal text
  of a number.
\<close>

theorem renderLiteral_inline_counterexample:
  "renderLiteral (newRenderer None None :: unit renderer) (DateLit InvalidDate) = Inl RangeError
   \<and> renderLiteral (newRenderer None None :: unit renderer)
        (NumLit (NumberVal PositiveInfinity))
       = Inr (''Infinity'', newRenderer None None)
   \<and> renderLiteral (newRenderer None None :: unit renderer) (NumLit (NumberVal NaN))
       = Inr (''NaN'', newRenderer None None)"
  by (simp add: renderLiteral_def toISOString_def newRenderer_def)

subsection \<open>Queries\<close>

text \<open>
  The text of a query is the texts of its parts in the order WITH, select, unions, ORDER
  BY, LIMIT, OFFSET. The text of the unions is a space followed by the entries joined by
  a space, and the text of an entry starts with a space of its own.
\<close>

lemma renderQuery_parts:
  assumes "renderQuery r (Query ctes sel unions ords lim off) = Inr (out, r')"
  shows "\<exists>ctesText selText unionsText ordText limText offText.
    out = ctesText @ selText @ unionsText @ ordText @ limText @ offText
    \<and> (if ctes = [] then ctesText = []
        else \<exists>subs. ctesText = ''WITH '' @ arrayJoin '', '' subs @ '' '' \<and> length subs = length ctes)
    \<and> (\<exists>ra rb. renderSelect ra sel = Inr (selText, rb))
    \<and> (if unions = [] then unionsText = []
        else \<exists>us. unionsText = '' '' @ arrayJoin '' '' us \<and>
               list_all2 (\<lambda>u t. \<exists>func allFlag s st ra rb.
                    u = SetOp func allFlag s \<and> renderSelect ra s = Inr (st, rb) \<and>
                    t = '' '' @ func @ (if allFlag then '' ALL'' else []) @ '' '' @ st) unions us)
    \<and> (if ords = [] then ordText = []
        else \<exists>os. ordText = '' ORDER BY '' @ arrayJoin '', '' os \<and> length os = length ords)
    \<and> (case lim of None \<Rightarrow> limText = []
        | Some e \<Rightarrow> \<exists>s ra rb. renderExpr ra e = Inr (s, rb) \<and> limText = '' LIMIT '' @ s)
    \<and> (case off of None \<Rightarrow> offText = []
        | Some e \<Rightarrow> \<exists>s ra rb. renderExpr ra e = Inr (s, rb) \<and> offText = '' OFFSET '' @ s)"
proof -
  let ?cte = "\<lambda>r cte. case cte of CommonTableExpr alias q \<Rightarrow>
                       let cols = (if length (alias_columns alias) = 0 then []
                                   else '' ('' @ arrayJoin '', ''
                                          (map renderIdent (alias_columns alias)) @ '')'')
                       in andThen (renderQuery r q) (\<lambda>s r'.
                            Inr (renderIdent (alias_name alias) @ cols @ '' AS ('' @ s @ '')'', r'))"
  let ?ord = "\<lambda>r oe. case oe of OrderingExpr e ord nullHandling \<Rightarrow>
                             let asc = (case ord of None \<Rightarrow> [] | Some a \<Rightarrow> '' '' @ a);
                                 nulls = (case nullHandling of None \<Rightarrow> [] | Some n \<Rightarrow> '' '' @ n)
                             in andThen (renderExpr r e) (\<lambda>s r'. Inr (s @ asc @ nulls, r'))"
  let ?un = "\<lambda>r u. case u of SetOp func allFlag s \<Rightarrow>
                                 let allText = (if allFlag then '' ALL'' else [])
                                 in andThen (renderSelect r s) (\<lambda>t r'.
                                      Inr ('' '' @ func @ allText @ '' '' @ t, r'))"
  from assms [unfolded renderQuery.simps andThen_eq_Inr]
  obtain ct r1 lt r2 ot r3 dt r4 st r5 ut where
    c: "(if length ctes = 0 then Inr ([], r)
         else andThen (mapArray ?cte r ctes) (\<lambda>subs r'.
                Inr (''WITH '' @ arrayJoin '', '' subs @ '' '', r'))) = Inr (ct, r1)"
    and l: "(case lim of None \<Rightarrow> Inr ([], r1)
             | Some e \<Rightarrow> andThen (renderExpr r1 e) (\<lambda>s r'. Inr ('' LIMIT '' @ s, r'))) = Inr (lt, r2)"
    and f: "(case off of None \<Rightarrow> Inr ([], r2)
             | Some e \<Rightarrow> andThen (renderExpr r2 e) (\<lambda>s r'. Inr ('' OFFSET '' @ s, r'))) = Inr (ot, r3)"
    and d: "(if length ords = 0 then Inr ([], r3)
             else andThen (mapArray ?ord r3 ords) (\<lambda>orders r'.
                    Inr ('' ORDER BY '' @ arrayJoin '', '' orders, r'))) = Inr (dt, r4)"
    and s: "renderSelect r4 sel = Inr (st, r5)"
    and u: "(if length unions = 0 then Inr ([], r5)
             else andThen (mapArray ?un r5 unions) (\<lambda>us r'.
                    Inr ('' '' @ arrayJoin '' '' us, r'))) = Inr (ut, r')"
    and out: "Inr (ct @ st @ ut @ dt @ lt @ ot, r') = (Inr (out, r') :: (string, 'a) rendering)"
    by blast
  have C: "if ctes = [] then ct = []
        else \<exists>subs. ct = ''WITH '' @ arrayJoin '', '' subs @ '' '' \<and> length subs = length ctes"
    using if_andThen_mapArray [OF c] by (auto split: if_splits)
  have D: "if ords = [] then dt = []
        else \<exists>os. dt = '' ORDER BY '' @ arrayJoin '', '' os \<and> length os = length ords"
    using if_andThen_mapArray [OF d] by (auto split: if_splits)
  have L: "case lim of None \<Rightarrow> lt = []
        | Some e \<Rightarrow> \<exists>s ra rb. renderExpr ra e = Inr (s, rb) \<and> lt = '' LIMIT '' @ s"
    using l by (auto simp: andThen_eq_Inr split: option.splits)
  have F: "case off of None \<Rightarrow> ot = []
        | Some e \<Rightarrow> \<exists>s ra rb. renderExpr ra e = Inr (s, rb) \<and> ot = '' OFFSET '' @ s"
    using f by (auto simp: andThen_eq_Inr split: option.splits)
  have U: "if unions = [] then ut = []
        else \<exists>us. ut = '' '' @ arrayJoin '' '' us \<and>
               list_all2 (\<lambda>u t. \<exists>func allFlag s st ra rb.
                    u = SetOp func allFlag s \<and> renderSelect ra s = Inr (st, rb) \<and>
                    t = '' '' @ func @ (if allFlag then '' ALL'' else []) @ '' '' @ st) unions us"
  proof (cases "unions = []")
    case True
    with if_andThen_mapArray [OF u] show ?thesis by simp
  next
    case False
    with if_andThen_mapArray [OF u] obtain us where
      us: "ut = '' '' @ arrayJoin '' '' us"
        "list_all2 (\<lambda>x y. \<exists>sa sb. ?un sa x = Inr (y, sb)) unions us"
      by auto
    from us(2)
    have "list_all2 (\<lambda>u t. \<exists>func allFlag s st ra rb.
                    u = SetOp func allFlag s \<and> renderSelect ra s = Inr (st, rb) \<and>
                    t = '' '' @ func @ (if allFlag then '' ALL'' else []) @ '' '' @ st) unions us"
    proof (rule list_all2_mono)
      fix u t
      assume "\<exists>sa sb. ?un sa u = Inr (t, sb)"
      then obtain sa sb where e: "?un sa u = Inr (t, sb)" by blast
      obtain func allFlag s where u: "u = SetOp func allFlag s" by (cases u)
      from e u obtain st where "renderSelect sa s = Inr (st, sb)"
        "t = '' '' @ func @ (if allFlag then '' ALL'' else []) @ '' '' @ st"
        by (auto simp: andThen_eq_Inr)
      with u show "\<exists>func allFlag s st ra rb.
                    u = SetOp func allFlag s \<and> renderSelect ra s = Inr (st, rb) \<and>
                    t = '' '' @ func @ (if allFlag then '' ALL'' else []) @ '' '' @ st"
        by blast
    qed
    with us(1) have "\<exists>us. ut = '' '' @ arrayJoin '' '' us \<and>
               list_all2 (\<lambda>u t. \<exists>func allFlag s st ra rb.
                    u = SetOp func allFlag s \<and> renderSelect ra s = Inr (st, rb) \<and>
                    t = '' '' @ func @ (if allFlag then '' ALL'' else []) @ '' '' @ st) unions us"
      by blast
    with False show ?thesis by (simp only: if_False)
  qed
  from out have "out = ct @ st @ ut @ dt @ lt @ ot" by simp
  with C s U D L F show ?thesis by blast
qed

text \<open>
  C6. \<open>renderQuery\<close> writes the WITH clause, the root select, the unions, ORDER BY, LIMIT
  and OFFSET in this order, each union entry after exactly one space. The order holds; the
  single space does not hold of the code: the text of the unions starts with a space,
  every entry starts with a space of its own, and the entries are joined by a space, so
  each set operator stands after two spaces.
\<close>

theorem renderQuery_union_spacing:
  \<open>renderQuery r
     (Query []
        (Select [AnonymousSelection (IdentExpr (Ident ''a''))] None None [] None)
        [SetOp ''UNION'' False
           (Select [AnonymousSelection (IdentExpr (Ident ''b''))] None None [] None),
         SetOp ''EXCEPT'' True
           (Select [AnonymousSelection (IdentExpr (Ident ''c''))] None None [] None)]
        [] None None)
   = Inr (''SELECT "a"  UNION SELECT "b"  EXCEPT ALL SELECT "c"'', r)\<close>
  by (simp add: renderIdent_def)

subsection \<open>Constraint check time\<close>

text \<open>
  C7. \<open>renderConstraintCheckTime\<close> gives one of four phrases: \<open>INITIALLY DEFERRED\<close>
  when \<open>initiallyDeferred\<close> is set and \<open>INITIALLY IMMEDIATE\<close> otherwise, followed by
  \<open>DEFERRABLE\<close> when \<open>deferrable\<close> is set and \<open>NOT DEFERRABLE\<close> otherwise. A
  deferrable, not initially deferred constraint reads \<open>INITIALLY IMMEDIATE DEFERRABLE\<close>.
\<close>

theorem renderConstraintCheckTime_phrases:
  "renderConstraintCheckTime \<lparr>deferrable = True, initiallyDeferred = True\<rparr> =
     ''INITIALLY DEFERRED DEFERRABLE''
   \<and> renderConstraintCheckTime \<lparr>deferrable = True, initiallyDeferred = False\<rparr> =
     ''INITIALLY IMMEDIATE DEFERRABLE''
   \<and> renderConstraintCheckTime \<lparr>deferrable = False, initiallyDeferred = True\<rparr> =
     ''INITIALLY DEFERRED NOT DEFERRABLE''
   \<and> renderConstraintCheckTime \<lparr>deferrable = False, initiallyDeferred = False\<rparr> =
     ''INITIALLY IMMEDIATE NOT DEFERRABLE''
   \<and> renderConstraintCheckTime cct =
     (if initiallyDeferred cct then ''INITIALLY DEFERRED'' else ''INITIALLY IMMEDIATE'') @ '' '' @
     (if deferrable cct then ''DEFERRABLE'' else ''NOT DEFERRABLE'')"
  by (simp add: renderConstraintCheckTime_def)

subsection \<open>The round trip of the parameters\<close>

text \<open>
  C8. Rendering a statement in parameter mode and putting the buffer back into the
  placeholders, in order, gives the literals that inline mode writes. The code does not
  have this property in the \<^verbatim>\<open>?\<close> style, for the reason given under C3: for the query
  that selects 1 with the limit 2, the text is \<open>SELECT ? LIMIT ?\<close> and the buffer is 2, 1,
  so the round trip reads \<open>SELECT 2 LIMIT 1\<close>, while inline mode writes
  \<open>SELECT 1 LIMIT 2\<close>.
\<close>

theorem roundtrip_question_mark_limit:
  "renderStatement methodText \<lparr>params = [], paramsMode = True, placeHolderStyle = QuestionMark\<rparr>
     (StmtQuery (Query []
        (Select [AnonymousSelection (Lit (NumLit (NumberVal (Integer (SafeInteger 1)))))] None None [] None)
        [] [] (Some (Lit (NumLit (NumberVal (Integer (SafeInteger 2)))))) None))
   = Inr (Sql ''SELECT ? LIMIT ?'',
          \<lparr>params = [JsNumber (Integer (SafeInteger 2)), JsNumber (Integer (SafeInteger 1)) :: 'x jsvalue], paramsMode = True,
           placeHolderStyle = QuestionMark\<rparr>)
   \<and> substitutePlaceholders ''SELECT ? LIMIT ?''
        (map inlineValue [JsNumber (Integer (SafeInteger 2)), JsNumber (Integer (SafeInteger 1)) :: 'x jsvalue]) = ''SELECT 2 LIMIT 1''
   \<and> renderStatement methodText \<lparr>params = [], paramsMode = False, placeHolderStyle = QuestionMark\<rparr>
     (StmtQuery (Query []
        (Select [AnonymousSelection (Lit (NumLit (NumberVal (Integer (SafeInteger 1)))))] None None [] None)
        [] [] (Some (Lit (NumLit (NumberVal (Integer (SafeInteger 2)))))) None))
   = Inr (Sql ''SELECT 1 LIMIT 2'',
          \<lparr>params = [] :: 'x jsvalue list, paramsMode = False, placeHolderStyle = QuestionMark\<rparr>)
   \<and> ''SELECT 2 LIMIT 1'' \<noteq> ''SELECT 1 LIMIT 2''"
  by (simp add: sql_def renderLiteral_def renderPlaceholder_def literalVal_def inlineValue_def
        decimalText_def integerValue_SafeInteger digits.simps digitChar_def)

subsection \<open>Custom literals\<close>

text \<open>
  C9. In parameter mode a custom literal does not raise: \<open>renderLiteral\<close> pushes its
  value onto the buffer and returns the placeholder of the new length, \<^verbatim>\<open>?\<close> or \<^verbatim>\<open>$n\<close>
  by the style. Inline mode raises the error of the custom literal.
\<close>

theorem renderLiteral_custom:
  "(paramsMode r \<longrightarrow>
      renderLiteral r (CustomLit c) =
        Inr ((if placeHolderStyle r = QuestionMark then ''?''
              else ''$'' @ decimalText (int (length (params r)) + 1)),
             r\<lparr>params := params r @ [JsCustom c]\<rparr>))
   \<and> (\<not> paramsMode r \<longrightarrow> renderLiteral r (CustomLit c) = Inl CustomLiteral)"
  by (simp add: renderLiteral_def renderPlaceholder_def literalVal_def Let_def add.commute)

theorem renderLiteral_custom_witness:
  "renderLiteral \<lparr>params = [JsNull], paramsMode = True, placeHolderStyle = Dollar\<rparr>
     (CustomLit (7::nat))
     = Inr (''$2'', \<lparr>params = [JsNull, JsCustom 7], paramsMode = True, placeHolderStyle = Dollar\<rparr>)
   \<and> renderLiteral \<lparr>params = [JsNull], paramsMode = True, placeHolderStyle = QuestionMark\<rparr>
     (CustomLit (7::nat))
     = Inr (''?'', \<lparr>params = [JsNull, JsCustom 7], paramsMode = True,
                   placeHolderStyle = QuestionMark\<rparr>)
   \<and> renderLiteral \<lparr>params = [JsNull], paramsMode = False, placeHolderStyle = Dollar\<rparr>
     (CustomLit (7::nat))
     = Inl CustomLiteral"
  using
    renderLiteral_custom
      [of "\<lparr>params = [JsNull], paramsMode = True, placeHolderStyle = Dollar\<rparr>" "7::nat"]
    renderLiteral_custom
      [of "\<lparr>params = [JsNull], paramsMode = True, placeHolderStyle = QuestionMark\<rparr>" "7::nat"]
    renderLiteral_custom
      [of "\<lparr>params = [JsNull], paramsMode = False, placeHolderStyle = Dollar\<rparr>" "7::nat"]
  by (simp add: decimalText_def integerValue_SafeInteger digits.simps digitChar_def)

subsection \<open>GROUP BY and HAVING\<close>

text \<open>
  \<open>renderSelect\<close> is its five clauses in the order in which the body computes them:
  the selections, WHERE, GROUP BY, HAVING, and the table last, each from the renderer the
  one before it returned.
\<close>

lemma renderSelect_clauses:
  "renderSelect r (Select sels frm whr grp hav) =
     andThen (selectSelections r sels) (\<lambda>selectionsText r1.
       andThen (selectWhere r1 whr) (\<lambda>whereText r2.
         andThen (if length grp = 0 then Inr ([], r2)
                  else andThen (mapArray renderExpr r2 grp) (\<lambda>gs r'.
                         Inr ('' GROUP BY'' @ arrayJoin '', '' gs, r'))) (\<lambda>groupByText r3.
           andThen (case hav of None \<Rightarrow> Inr ([], r3)
                    | Some e \<Rightarrow>
                        andThen (renderExpr r3 e) (\<lambda>s r'. Inr ('' HAVING'' @ s, r'))) (\<lambda>havingText r4.
             andThen (selectTable r4 frm) (\<lambda>tableText r5.
               Inr (''SELECT '' @ selectionsText @ tableText @ whereText @ groupByText
                    @ havingText, r5))))))"
  by (simp only: renderSelect.simps selectSelections_def selectWhere_def selectTable_def
      andThen_assoc andThen_Inr Let_def)

lemma groupBy_clause:
  "(if length grp = 0 then Inr ([], r2)
    else andThen (mapArray f r2 grp) (\<lambda>gs r'. Inr (g gs, r'))) = Inr (gt, r3)
   \<longleftrightarrow> (if grp = [] then gt = [] \<and> r3 = r2
        else \<exists>gs. mapArray f r2 grp = Inr (gs, r3) \<and> gt = g gs)"
  by (auto simp: andThen_eq_Inr)

lemma having_clause:
  "(case hav of None \<Rightarrow> Inr ([], r3)
    | Some e \<Rightarrow> andThen (f r3 e) (\<lambda>s r'. Inr (g s, r'))) = Inr (ht, r4)
   \<longleftrightarrow> (case hav of None \<Rightarrow> ht = [] \<and> r4 = r3
        | Some h \<Rightarrow> \<exists>hs. f r3 h = Inr (hs, r4) \<and> ht = g hs)"
  by (auto simp: andThen_eq_Inr split: option.splits)

text \<open>
  C10. For a select with a non-empty \<open>groupBy\<close>, \<open>renderSelect\<close> writes \<open> GROUP BY\<close>
  followed at once, with no space between, by the rendered group-by expressions joined by
  a comma and a space; for a select with a \<open>having\<close>, it writes \<open> HAVING\<close> followed at
  once by the rendered having expression. In full: \<open>renderSelect\<close> returns the text
  \<open>out\<close> and the renderer \<open>r'\<close> exactly when its clauses render one after the other,
  the group-by expressions from the renderer \<open>r2\<close> that the selections and the WHERE
  clause leave, the having expression from the renderer \<open>r3\<close> that the group-by
  expressions leave, and the table from the renderer \<open>r4\<close> after that; and \<open>out\<close> is
  then \<open>SELECT\<close>, the selections, the table, the WHERE clause, the GROUP BY clause and
  the HAVING clause, with which the text ends. The GROUP BY clause is empty for an empty
  \<open>groupBy\<close> and the HAVING clause is empty without a \<open>having\<close>. So \<open>renderSelect\<close>
  raises only where one of its clauses does.
\<close>

theorem renderSelect_groupBy_having:
  "renderSelect r (Select sels frm whr grp hav) = Inr (out, r') \<longleftrightarrow>
   (\<exists>selectionsText r1 whereText r2 groupByText r3 havingText r4 tableText.
      selectSelections r sels = Inr (selectionsText, r1)
    \<and> selectWhere r1 whr = Inr (whereText, r2)
    \<and> (if grp = [] then groupByText = [] \<and> r3 = r2
       else \<exists>gs. mapArray renderExpr r2 grp = Inr (gs, r3)
              \<and> groupByText = '' GROUP BY'' @ arrayJoin '', '' gs)
    \<and> (case hav of
         None \<Rightarrow> havingText = [] \<and> r4 = r3
       | Some h \<Rightarrow> \<exists>hs. renderExpr r3 h = Inr (hs, r4) \<and> havingText = '' HAVING'' @ hs)
    \<and> selectTable r4 frm = Inr (tableText, r')
    \<and> out = ''SELECT '' @ selectionsText @ tableText @ whereText @ groupByText @ havingText)"
  unfolding renderSelect_clauses andThen_eq_Inr groupBy_clause having_clause
  by (simp only: sum.inject prod.inject eq_commute [of _ out]) blast

text \<open>
  In parameter mode with the \<^verbatim>\<open>$\<close> style the numbers of the placeholders show from
  which renderer each clause is rendered: the selection takes \<^verbatim>\<open>$1\<close>, the group-by
  expressions start from the buffer that holds one value, and the having expression from
  the buffer that holds two. The last conjunct is a select rendered inline.
\<close>

theorem renderSelect_groupBy_having_witness:
  \<open>renderSelect \<lparr>params = [], paramsMode = True, placeHolderStyle = Dollar\<rparr>
     (Select [AnonymousSelection (Lit (NumLit (NumberVal (Integer (SafeInteger 1)))))]
        (Some (JoinedTable (BasicTable (Ident ''employee'')) []))
        None
        [Lit (NumLit (NumberVal (Integer (SafeInteger 2)))), IdentExpr (Ident ''dept'')]
        (Some (BinaryApp (IdentExpr (Ident ''n'')) ''>''
           (Lit (NumLit (NumberVal (Integer (SafeInteger 3))))))))
   = Inr (''SELECT $1 FROM "employee" GROUP BY$2, "dept" HAVING"n" > $3'',
          \<lparr>params = [JsNumber (Integer (SafeInteger 1)), JsNumber (Integer (SafeInteger 2)),
                     JsNumber (Integer (SafeInteger 3)) :: unit jsvalue],
           paramsMode = True, placeHolderStyle = Dollar\<rparr>)
   \<and> mapArray renderExpr
        \<lparr>params = [JsNumber (Integer (SafeInteger 1)) :: unit jsvalue], paramsMode = True,
         placeHolderStyle = Dollar\<rparr>
        [Lit (NumLit (NumberVal (Integer (SafeInteger 2)))), IdentExpr (Ident ''dept'')]
     = Inr ([''$2'', ''"dept"''],
            \<lparr>params = [JsNumber (Integer (SafeInteger 1)), JsNumber (Integer (SafeInteger 2))],
             paramsMode = True, placeHolderStyle = Dollar\<rparr>)
   \<and> renderExpr
        \<lparr>params = [JsNumber (Integer (SafeInteger 1)),
                   JsNumber (Integer (SafeInteger 2)) :: unit jsvalue],
         paramsMode = True, placeHolderStyle = Dollar\<rparr>
        (BinaryApp (IdentExpr (Ident ''n'')) ''>''
           (Lit (NumLit (NumberVal (Integer (SafeInteger 3))))))
     = Inr (''"n" > $3'',
            \<lparr>params = [JsNumber (Integer (SafeInteger 1)), JsNumber (Integer (SafeInteger 2)),
                       JsNumber (Integer (SafeInteger 3))],
             paramsMode = True, placeHolderStyle = Dollar\<rparr>)
   \<and> renderSelect (newRenderer None None :: unit renderer)
     (Select [AnonymousSelection (IdentExpr (Ident ''dept''))]
        (Some (JoinedTable (BasicTable (Ident ''employee'')) []))
        None
        [IdentExpr (Ident ''dept''), IdentExpr (Ident ''site'')]
        (Some (BinaryApp (IdentExpr (Ident ''n'')) ''>''
           (Lit (NumLit (NumberVal (Integer (SafeInteger 1))))))))
   = Inr (''SELECT "dept" FROM "employee" GROUP BY"dept", "site" HAVING"n" > 1'',
          newRenderer None None)\<close>
  using renderSelect_groupBy_having
    [of "\<lparr>params = [], paramsMode = True, placeHolderStyle = Dollar\<rparr> :: unit renderer"
        "[AnonymousSelection (Lit (NumLit (NumberVal (Integer (SafeInteger 1)))))]"
        "Some (JoinedTable (BasicTable (Ident ''employee'')) [])"
        None
        "[Lit (NumLit (NumberVal (Integer (SafeInteger 2)))), IdentExpr (Ident ''dept'')]"
        "Some (BinaryApp (IdentExpr (Ident ''n'')) ''>''
           (Lit (NumLit (NumberVal (Integer (SafeInteger 3))))))"
        \<open>''SELECT $1 FROM "employee" GROUP BY$2, "dept" HAVING"n" > $3''\<close>
        "\<lparr>params = [JsNumber (Integer (SafeInteger 1)), JsNumber (Integer (SafeInteger 2)),
                   JsNumber (Integer (SafeInteger 3))],
          paramsMode = True, placeHolderStyle = Dollar\<rparr>"]
  by (simp add: newRenderer_def renderIdent_def renderLiteral_def renderPlaceholder_def
      literalVal_def decimalText_def integerValue_SafeInteger digits.simps digitChar_def
      selectSelections_def selectWhere_def selectTable_def)

end
